theory Spec2Isabelle
  imports Complex_Main "HOL-Library.Word"
begin

section \<open>JavaScript values\<close>

text \<open>
  The program is \<^verbatim>\<open>frontend/app.js\<close>, the browser side of a video downloader. Its
  functions read JSON values that arrive over a WebSocket or as HTTP response bodies, and
  write to DOM elements. The embedding has three layers: the values of the language
  (strings, numbers, JSON values and the coercions the program relies on), the page state
  (the three global variables, the DOM elements of \<^verbatim>\<open>elements\<close>, the sockets, timers
  and requests of the browser), and the functions of the file as state transformers.

  A JavaScript string is a sequence of 16-bit code units. ASCII literals are written with
  \<open>js\<close>; the Japanese literals of the source are written as their code units.
\<close>

type_synonym jsstring = "16 word list"

definition js :: "string \<Rightarrow> jsstring" where
  "js s = map (\<lambda>c. of_nat (of_char c)) s"

text \<open>
  A number is an IEEE double. A finite double is represented by the rational it denotes
  (the two zeros are one value, \<open>Fin 0\<close>). Rounding to an integer, the remainder and
  \<^verbatim>\<open>toFixed\<close> are exact on doubles; a quotient is exact when it is a double, and is
  rounded otherwise.
\<close>

datatype jsnum = Fin rat | NaN | PosInf | NegInf

datatype jsval =
    JUndefined
  | JNull
  | JBool bool
  | JNum jsnum
  | JStr jsstring
  | JArr "jsval list"
  | JObj "(jsstring \<times> jsval) list"

datatype js_error = TypeError | SyntaxError

text \<open>
  Built-in functions of the language that the program calls and whose result depends on
  the text of a string, on the digits of a double, on its rounding or on the locale are
  parameters of the model:
  \<^item> \<open>JSON_parse\<close>: \<^verbatim>\<open>JSON.parse\<close>, \<open>None\<close> when it throws a SyntaxError;
  \<^item> \<open>StringToNumber\<close>: the conversion of a string to a number;
  \<^item> \<open>Number_toString_ext\<close>: \<^verbatim>\<open>Number.prototype.toString\<close> on a finite number that is not
    an integer below \<open>2^53\<close> in magnitude (fraction digits, shortest round-trip digits,
    exponent notation);
  \<^item> \<open>Double_round\<close>: the double nearest to a rational that is not one;
  \<^item> \<open>Date_toLocaleString\<close>: \<^verbatim>\<open>new Date(v).toLocaleString('ja-JP')\<close> for a primitive
    value \<open>v\<close>.
\<close>

record builtins =
  JSON_parse :: "jsstring \<Rightarrow> jsval option"
  StringToNumber :: "jsstring \<Rightarrow> jsnum"
  Number_toString_ext :: "rat \<Rightarrow> jsstring"
  Double_round :: "rat \<Rightarrow> rat"
  Date_toLocaleString :: "jsval \<Rightarrow> jsstring"

subsection \<open>Numbers\<close>

definition digit_unit :: "nat \<Rightarrow> 16 word" where
  "digit_unit d = of_nat (48 + d)"

function digits :: "nat \<Rightarrow> jsstring" where
  "digits n = (if n < 10 then [digit_unit n] else digits (n div 10) @ [digit_unit (n mod 10)])"
  by pat_completeness auto
termination
  by (relation "measure id") auto

declare digits.simps [simp del]

definition is_integral :: "rat \<Rightarrow> bool" where
  "is_integral q = (of_int \<lfloor>q\<rfloor> = q)"

definition Number_toString :: "builtins \<Rightarrow> jsnum \<Rightarrow> jsstring" where
  "Number_toString B x =
     (case x of
        NaN \<Rightarrow> js ''NaN''
      | PosInf \<Rightarrow> js ''Infinity''
      | NegInf \<Rightarrow> js ''-Infinity''
      | Fin q \<Rightarrow>
          if is_integral q \<and> \<bar>q\<bar> < 2 ^ 53
          then (if q < 0 then js ''-'' else []) @ digits (nat \<lfloor>\<bar>q\<bar>\<rfloor>)
          else Number_toString_ext B q)"

text \<open>\<^verbatim>\<open>Math.round\<close> rounds to the nearest integer, a tie towards \<open>+\<infinity>\<close>.\<close>

definition Math_round :: "jsnum \<Rightarrow> jsnum" where
  "Math_round x = (case x of Fin q \<Rightarrow> Fin (of_int \<lfloor>q + 1 / 2\<rfloor>) | _ \<Rightarrow> x)"

definition Math_floor :: "jsnum \<Rightarrow> jsnum" where
  "Math_floor x = (case x of Fin q \<Rightarrow> Fin (of_int \<lfloor>q\<rfloor>) | _ \<Rightarrow> x)"

text \<open>
  The program divides and takes remainders by positive constants only (\<open>60\<close> and
  \<open>1024 * 1024\<close>): \<open>x / c\<close> and \<open>x % c\<close> for a finite \<open>c > 0\<close>. A rational
  \<open>a / 2^k\<close> with \<open>\<bar>a\<bar> < 2^53\<close> and \<open>k \<le> 1074\<close> is a double, and a quotient that is
  one is the result of the division; any other quotient is rounded by \<open>Double_round\<close>.
  The remainder is exact, has the sign of the dividend, and is NaN when the dividend is
  not finite.
\<close>

definition is_double :: "rat \<Rightarrow> bool" where
  "is_double q = (case quotient_of q of (a, b) \<Rightarrow> b dvd 2 ^ 1074 \<and> \<bar>a\<bar> < 2 ^ 53)"

definition num_div :: "builtins \<Rightarrow> jsnum \<Rightarrow> rat \<Rightarrow> jsnum" where
  "num_div B x c =
     (case x of
        Fin q \<Rightarrow> Fin (if is_double (q / c) then q / c else Double_round B (q / c))
      | _ \<Rightarrow> x)"

definition trunc :: "rat \<Rightarrow> int" where
  "trunc q = (if 0 \<le> q then \<lfloor>q\<rfloor> else \<lceil>q\<rceil>)"

definition num_mod :: "jsnum \<Rightarrow> rat \<Rightarrow> jsnum" where
  "num_mod x c = (case x of Fin q \<Rightarrow> Fin (q - c * of_int (trunc (q / c))) | _ \<Rightarrow> NaN)"

definition num_gt_zero :: "jsnum \<Rightarrow> bool" where
  "num_gt_zero x = (case x of Fin q \<Rightarrow> 0 < q | PosInf \<Rightarrow> True | _ \<Rightarrow> False)"

text \<open>
  \<^verbatim>\<open>x.toFixed(2)\<close>: a value that is not finite prints as \<open>Number_toString\<close> does; the
  sign is taken off first; a magnitude of \<open>10^21\<close> or more prints as \<open>Number_toString\<close>
  does; otherwise \<open>n\<close> is the integer with \<open>n / 100\<close> nearest to the magnitude (the
  larger one on a tie), printed with at least three digits and a point before the last
  two.
\<close>

definition pad3 :: "jsstring \<Rightarrow> jsstring" where
  "pad3 m = replicate (3 - length m) (digit_unit 0) @ m"

definition toFixed2 :: "builtins \<Rightarrow> jsnum \<Rightarrow> jsstring" where
  "toFixed2 B x =
     (case x of
        Fin q \<Rightarrow>
          (let s = (if q < 0 then js ''-'' else []);
               a = \<bar>q\<bar>
           in if 10 ^ 21 \<le> a then s @ Number_toString B (Fin a)
              else (let m = pad3 (digits (nat \<lfloor>a * 100 + 1 / 2\<rfloor>));
                        k = length m
                    in s @ take (k - 2) m @ js ''.'' @ drop (k - 2) m))
      | _ \<Rightarrow> Number_toString B x)"

subsection \<open>Coercions\<close>

definition ToBoolean :: "jsval \<Rightarrow> bool" where
  "ToBoolean v =
     (case v of
        JUndefined \<Rightarrow> False
      | JNull \<Rightarrow> False
      | JBool b \<Rightarrow> b
      | JNum x \<Rightarrow> (case x of Fin q \<Rightarrow> q \<noteq> 0 | NaN \<Rightarrow> False | _ \<Rightarrow> True)
      | JStr s \<Rightarrow> s \<noteq> []
      | JArr _ \<Rightarrow> True
      | JObj _ \<Rightarrow> True)"

text \<open>\<^verbatim>\<open>a || b\<close> is \<open>a\<close> when \<open>a\<close> is truthy and \<open>b\<close> otherwise.\<close>

definition js_or :: "jsval \<Rightarrow> jsval \<Rightarrow> jsval" where
  "js_or a b = (if ToBoolean a then a else b)"

fun join_with :: "jsstring \<Rightarrow> jsstring list \<Rightarrow> jsstring" where
  "join_with sep [] = []"
| "join_with sep [s] = s"
| "join_with sep (s # t # ss) = s @ sep @ join_with sep (t # ss)"

text \<open>
  Conversion to a primitive, on the values JSON can produce. A primitive is itself. An
  object that has an own \<^verbatim>\<open>toString\<close> key cannot be converted: the value of the key
  is not a function, and the inherited \<^verbatim>\<open>valueOf\<close> returns the object, so the
  conversion throws a TypeError; any other object converts to \<^verbatim>\<open>[object Object]\<close>. An
  array converts to its elements joined by commas, \<^verbatim>\<open>null\<close> and \<^verbatim>\<open>undefined\<close>
  elements as the empty string, and throws when the conversion of an element does.
  \<open>ToString\<close> is the conversion a template literal and a string attribute apply.
\<close>

fun ToString :: "builtins \<Rightarrow> jsval \<Rightarrow> js_error + jsstring"
  and ToString_elements :: "builtins \<Rightarrow> jsval list \<Rightarrow> js_error + jsstring list" where
  "ToString B JUndefined = Inr (js ''undefined'')"
| "ToString B JNull = Inr (js ''null'')"
| "ToString B (JBool b) = Inr (if b then js ''true'' else js ''false'')"
| "ToString B (JNum x) = Inr (Number_toString B x)"
| "ToString B (JStr s) = Inr s"
| "ToString B (JArr xs) =
     (case ToString_elements B xs of
        Inl e \<Rightarrow> Inl e
      | Inr ss \<Rightarrow> Inr (join_with (js '','') ss))"
| "ToString B (JObj kvs) =
     (if map_of kvs (js ''toString'') \<noteq> None then Inl TypeError
      else Inr (js ''[object Object]''))"
| "ToString_elements B [] = Inr []"
| "ToString_elements B (x # xs) =
     (case (if x = JUndefined \<or> x = JNull then Inr [] else ToString B x) of
        Inl e \<Rightarrow> Inl e
      | Inr s \<Rightarrow>
          (case ToString_elements B xs of
             Inl e \<Rightarrow> Inl e
           | Inr ss \<Rightarrow> Inr (s # ss)))"

definition ToPrimitive :: "builtins \<Rightarrow> jsval \<Rightarrow> js_error + jsval" where
  "ToPrimitive B v =
     (case v of
        JArr xs \<Rightarrow> (case ToString B v of Inl e \<Rightarrow> Inl e | Inr s \<Rightarrow> Inr (JStr s))
      | JObj kvs \<Rightarrow> (case ToString B v of Inl e \<Rightarrow> Inl e | Inr s \<Rightarrow> Inr (JStr s))
      | _ \<Rightarrow> Inr v)"

text \<open>\<open>ToNumber\<close> converts to a primitive first; on a primitive it cannot throw.\<close>

definition ToNumber_primitive :: "builtins \<Rightarrow> jsval \<Rightarrow> jsnum" where
  "ToNumber_primitive B v =
     (case v of
        JNull \<Rightarrow> Fin 0
      | JBool b \<Rightarrow> (if b then Fin 1 else Fin 0)
      | JNum x \<Rightarrow> x
      | JStr s \<Rightarrow> StringToNumber B s
      | _ \<Rightarrow> NaN)"

definition ToNumber :: "builtins \<Rightarrow> jsval \<Rightarrow> js_error + jsnum" where
  "ToNumber B v =
     (case ToPrimitive B v of
        Inl e \<Rightarrow> Inl e
      | Inr p \<Rightarrow> Inr (ToNumber_primitive B p))"

text \<open>
  Reading a property. On \<^verbatim>\<open>null\<close> and \<^verbatim>\<open>undefined\<close> it throws a TypeError. On an object
  it is the own property or \<^verbatim>\<open>undefined\<close>: the names the program reads (\<^verbatim>\<open>status\<close>,
  \<^verbatim>\<open>progress\<close>, \<^verbatim>\<open>speed\<close>, \<^verbatim>\<open>eta\<close>, \<^verbatim>\<open>message\<close>, \<^verbatim>\<open>result\<close>, \<^verbatim>\<open>error\<close>, \<^verbatim>\<open>id\<close>,
  \<^verbatim>\<open>filename\<close>, \<^verbatim>\<open>success\<close>, \<^verbatim>\<open>data\<close>, \<^verbatim>\<open>length\<close>) are not inherited from a prototype
  and are not array indices. Arrays and strings have a \<^verbatim>\<open>length\<close>.
\<close>

definition get_prop :: "jsval \<Rightarrow> jsstring \<Rightarrow> js_error + jsval" where
  "get_prop v k =
     (case v of
        JUndefined \<Rightarrow> Inl TypeError
      | JNull \<Rightarrow> Inl TypeError
      | JObj kvs \<Rightarrow> Inr (case map_of kvs k of Some x \<Rightarrow> x | None \<Rightarrow> JUndefined)
      | JArr xs \<Rightarrow>
          Inr (if k = js ''length'' then JNum (Fin (of_nat (length xs))) else JUndefined)
      | JStr s \<Rightarrow>
          Inr (if k = js ''length'' then JNum (Fin (of_nat (length s))) else JUndefined)
      | _ \<Rightarrow> Inr JUndefined)"

subsection \<open>Formatting\<close>

text \<open>
  \<^verbatim>\<open>formatSpeed\<close> and \<^verbatim>\<open>formatEta\<close> of the source. The Japanese literals are
  given by their code units: \<open>nokori\<close> is the suffix of every estimate (a space, U+6B8B,
  U+308A: "remaining"), U+5206 is the minutes sign and U+79D2 the seconds sign.
\<close>

definition nokori :: jsstring where
  "nokori = js '' '' @ [0x6B8B, 0x308A]"

definition formatSpeed :: "builtins \<Rightarrow> jsval \<Rightarrow> js_error + jsstring" where
  "formatSpeed B bytesPerSecond =
     (if \<not> ToBoolean bytesPerSecond then Inr (js ''0 MB/s'')
      else (case ToNumber B bytesPerSecond of
              Inl e \<Rightarrow> Inl e
            | Inr n \<Rightarrow>
                (let mbps = num_div B n (1024 * 1024)
                 in Inr (toFixed2 B mbps @ js '' MB/s''))))"

definition formatEta :: "builtins \<Rightarrow> jsval \<Rightarrow> js_error + jsstring" where
  "formatEta B seconds =
     (if \<not> ToBoolean seconds then Inr (js ''--'' @ nokori)
      else (case ToNumber B seconds of
              Inl e \<Rightarrow> Inl e
            | Inr n \<Rightarrow>
                (let mins = Math_floor (num_div B n 60);
                     secs = Math_floor (num_mod n 60)
                 in if num_gt_zero mins
                    then Inr (Number_toString B mins @ [0x5206] @ Number_toString B secs @
                              [0x79D2] @ nokori)
                    else Inr (Number_toString B secs @ [0x79D2] @ nokori))))"

section \<open>The page\<close>

text \<open>
  The state of the page: the global variables of the file, the properties of the DOM
  elements of \<^verbatim>\<open>elements\<close> that the functions below read or write, and the part of the
  browser they act on (the sockets created, the pending timers, the HTTP requests issued,
  the console). All elements of \<^verbatim>\<open>elements\<close> are taken to exist in the document.
  \<open>progressBar_style_width\<close> holds the string last assigned to \<^verbatim>\<open>style.width\<close>; what
  the browser makes of that string as CSS (it ignores \<^verbatim>\<open>NaN%\<close> or a negative
  percentage) is outside the model.
\<close>

record button =
  disabled :: bool
  style_opacity :: jsstring
  style_cursor :: jsstring

datatype ready_state = Connecting | Open | Closed

record ws =
  ws_url :: jsstring
  ws_readyState :: ready_state

datatype callback = InitWebSocket

record timer =
  timer_delay :: nat
  timer_callback :: callback

datatype http_request = Get jsstring | PostJson jsstring jsval

datatype http_response = NetworkError | Response bool jsstring

text \<open>
  A child of the history list: the \<^verbatim>\<open>history-item\<close> element that
  \<^verbatim>\<open>createHistoryItem\<close> builds, with the three texts put into its markup (the source of
  the thumbnail, the title, the date) and the item its click listener keeps, or the
  \<^verbatim>\<open>history-empty\<close> placeholder.
\<close>

datatype dom_node = HistoryItem jsstring jsstring jsstring jsval | HistoryEmpty

datatype log_entry =
    LogOpen
  | LogError
  | LogClosed
  | LogHistoryFailed js_error
  | LogUncaught js_error

record app_state =
  currentVideoInfo :: jsval
  websocket :: "nat option"
  currentDownloadId :: jsval
  videoUrl_value :: jsstring
  fetchInfoBtn :: button
  downloadBtn :: button
  previewSection_hidden :: bool
  progressSection_hidden :: bool
  completeSection_hidden :: bool
  errorSection_hidden :: bool
  progressBar_style_width :: jsstring
  progressPercent_text :: jsstring
  progressSpeed_text :: jsstring
  progressEta_text :: jsstring
  progressMessage_text :: jsstring
  completeFilename_text :: jsstring
  downloadFileBtn_href :: jsstring
  downloadFileBtn_download :: jsstring
  errorMessage_text :: jsstring
  historyList :: "dom_node list"
  formatTypeRadios :: "(bool \<times> jsstring) list"
  videoQuality_value :: jsstring
  audioQuality_value :: jsstring
  location_protocol :: jsstring
  location_host :: jsstring
  sockets :: "ws list"
  timers :: "timer list"
  requests :: "http_request list"
  console :: "log_entry list"

text \<open>
  A function of the source either returns or throws; when it throws, the writes it made
  before stay, so both outcomes carry the state.
\<close>

datatype outcome = Returned app_state | Threw js_error app_state

definition state_of :: "outcome \<Rightarrow> app_state" where
  "state_of r = (case r of Returned s \<Rightarrow> s | Threw e s \<Rightarrow> s)"

text \<open>
  Assigning to \<^verbatim>\<open>textContent\<close> (a nullable string attribute): \<^verbatim>\<open>null\<close> and
  \<^verbatim>\<open>undefined\<close> give the empty string, any other value its \<open>ToString\<close>, and the
  assignment throws when the conversion does.
\<close>

definition textContent_of :: "builtins \<Rightarrow> jsval \<Rightarrow> js_error + jsstring" where
  "textContent_of B v = (if v = JUndefined \<or> v = JNull then Inr [] else ToString B v)"

definition fetch :: "http_request \<Rightarrow> app_state \<Rightarrow> app_state" where
  "fetch req st = st\<lparr>requests := requests st @ [req]\<rparr>"

subsection \<open>Sections, errors, buttons\<close>

definition hideAllSections :: "app_state \<Rightarrow> app_state" where
  "hideAllSections st =
     st\<lparr>previewSection_hidden := True, progressSection_hidden := True,
        completeSection_hidden := True, errorSection_hidden := True\<rparr>"

definition showError :: "builtins \<Rightarrow> jsval \<Rightarrow> app_state \<Rightarrow> outcome" where
  "showError B message st =
     (let st1 = (hideAllSections st)\<lparr>errorSection_hidden := False\<rparr>
      in case textContent_of B message of
           Inl e \<Rightarrow> Threw e st1
         | Inr m \<Rightarrow> Returned (st1\<lparr>errorMessage_text := m\<rparr>))"

definition setButtonLoading :: "bool \<Rightarrow> button \<Rightarrow> button" where
  "setButtonLoading isLoading b =
     (if isLoading
      then b\<lparr>disabled := True, style_opacity := js ''0.6'', style_cursor := js ''not-allowed''\<rparr>
      else b\<lparr>disabled := False, style_opacity := js ''1'', style_cursor := js ''pointer''\<rparr>)"

definition resetForm :: "app_state \<Rightarrow> app_state" where
  "resetForm st =
     hideAllSections (st\<lparr>videoUrl_value := [], currentVideoInfo := JNull,
                          currentDownloadId := JNull\<rparr>)"

subsection \<open>Progress\<close>

text \<open>
  \<^verbatim>\<open>updateProgress\<close> computes the three values before it writes any of them, so when a
  conversion throws nothing has been written.
\<close>

definition updateProgress :: "builtins \<Rightarrow> jsval \<Rightarrow> app_state \<Rightarrow> outcome" where
  "updateProgress B data st =
     (case get_prop data (js ''progress'') of
        Inl e \<Rightarrow> Threw e st
      | Inr p \<Rightarrow>
     (case ToNumber B (js_or p (JNum (Fin 0))) of
        Inl e \<Rightarrow> Threw e st
      | Inr n \<Rightarrow>
     (case get_prop data (js ''speed'') of
        Inl e \<Rightarrow> Threw e st
      | Inr s \<Rightarrow>
     (case formatSpeed B (js_or s (JNum (Fin 0))) of
        Inl e \<Rightarrow> Threw e st
      | Inr speed \<Rightarrow>
     (case get_prop data (js ''eta'') of
        Inl e \<Rightarrow> Threw e st
      | Inr t \<Rightarrow>
     (case formatEta B (js_or t (JNum (Fin 0))) of
        Inl e \<Rightarrow> Threw e st
      | Inr eta \<Rightarrow>
          (let progress = Math_round n
           in Returned
                (st\<lparr>progressBar_style_width := Number_toString B progress @ js ''%'',
                    progressPercent_text := Number_toString B progress @ js ''%'',
                    progressSpeed_text := speed,
                    progressEta_text := eta\<rparr>))))))))"

subsection \<open>History\<close>

definition placeholder_thumbnail :: jsstring where
  "placeholder_thumbnail = js ''https://via.placeholder.com/640x360?text=No+Thumbnail''"

text \<open>
  \<^verbatim>\<open>createHistoryItem\<close> reads \<^verbatim>\<open>item.thumbnail\<close> first, which throws on \<^verbatim>\<open>null\<close> and
  \<^verbatim>\<open>undefined\<close>. The date is made from \<^verbatim>\<open>item.completed_at\<close>, which \<^verbatim>\<open>new Date\<close>
  converts to a primitive; the template literal converts the thumbnail and the title to
  strings; each conversion may throw. \<^verbatim>\<open>item.id\<close> is read by the click listener only,
  so the element keeps the item. The element is not yet in the document, so building it
  changes no state.
\<close>

definition createHistoryItem :: "builtins \<Rightarrow> jsval \<Rightarrow> js_error + dom_node" where
  "createHistoryItem B item =
     (case get_prop item (js ''thumbnail'') of
        Inl e \<Rightarrow> Inl e
      | Inr th \<Rightarrow>
     (case get_prop item (js ''completed_at'') of
        Inl e \<Rightarrow> Inl e
      | Inr completed_at \<Rightarrow>
     (case ToPrimitive B completed_at of
        Inl e \<Rightarrow> Inl e
      | Inr completed \<Rightarrow>
     (case ToString B (js_or th (JStr placeholder_thumbnail)) of
        Inl e \<Rightarrow> Inl e
      | Inr thumbnail \<Rightarrow>
     (case get_prop item (js ''title'') of
        Inl e \<Rightarrow> Inl e
      | Inr t \<Rightarrow>
     (case ToString B t of
        Inl e \<Rightarrow> Inl e
      | Inr title \<Rightarrow>
          Inr (HistoryItem thumbnail title (Date_toLocaleString B completed) item)))))))"

text \<open>The body of \<^verbatim>\<open>history.forEach\<close> in \<^verbatim>\<open>displayHistory\<close>, over the items left.\<close>

fun appendItems :: "builtins \<Rightarrow> jsval list \<Rightarrow> app_state \<Rightarrow> outcome" where
  "appendItems B [] st = Returned st"
| "appendItems B (item # items) st =
     (case createHistoryItem B item of
        Inl e \<Rightarrow> Threw e st
      | Inr historyItem \<Rightarrow>
          appendItems B items (st\<lparr>historyList := historyList st @ [historyItem]\<rparr>))"

text \<open>
  \<^verbatim>\<open>displayHistory\<close> empties the list, then calls \<^verbatim>\<open>history.forEach\<close>: only an array
  has that method, on any other value the call throws a TypeError.
\<close>

definition displayHistory :: "builtins \<Rightarrow> jsval \<Rightarrow> app_state \<Rightarrow> outcome" where
  "displayHistory B history st =
     (let st1 = st\<lparr>historyList := []\<rparr>
      in case history of
           JArr items \<Rightarrow> appendItems B items st1
         | _ \<Rightarrow> Threw TypeError st1)"

definition displayEmptyHistory :: "app_state \<Rightarrow> app_state" where
  "displayEmptyHistory st = st\<lparr>historyList := [HistoryEmpty]\<rparr>"

text \<open>
  \<^verbatim>\<open>loadHistory\<close> is asynchronous. Up to its first \<^verbatim>\<open>await\<close> it issues the request;
  \<open>loadHistory_resume\<close> is the rest, run when the response (or the network failure)
  arrives. \<open>loadHistory_try\<close> is the body of the \<^verbatim>\<open>try\<close> from there on, and
  \<open>loadHistory_catch\<close> the \<^verbatim>\<open>catch\<close>: it logs the error and shows the placeholder, on
  the state the \<^verbatim>\<open>try\<close> left. A failed request rejects with a TypeError, a body that
  is not JSON with a SyntaxError. The status of the response is not read: \<^verbatim>\<open>response.ok\<close>
  does not occur in \<^verbatim>\<open>loadHistory\<close>. The comparison \<^verbatim>\<open>length > 0\<close> converts the length
  to a number.
\<close>

definition loadHistory :: "app_state \<Rightarrow> app_state" where
  "loadHistory st = fetch (Get (js ''/api/history'')) st"

definition loadHistory_try :: "builtins \<Rightarrow> http_response \<Rightarrow> app_state \<Rightarrow> outcome" where
  "loadHistory_try B response st =
     (case response of
        NetworkError \<Rightarrow> Threw TypeError st
      | Response ok body \<Rightarrow>
     (case JSON_parse B body of
        None \<Rightarrow> Threw SyntaxError st
      | Some result \<Rightarrow>
     (case get_prop result (js ''success'') of
        Inl e \<Rightarrow> Threw e st
      | Inr success \<Rightarrow>
          if \<not> ToBoolean success then Returned (displayEmptyHistory st)
          else
     (case get_prop result (js ''data'') of
        Inl e \<Rightarrow> Threw e st
      | Inr data \<Rightarrow>
     (case get_prop data (js ''length'') of
        Inl e \<Rightarrow> Threw e st
      | Inr len \<Rightarrow>
     (case ToNumber B len of
        Inl e \<Rightarrow> Threw e st
      | Inr n \<Rightarrow>
          if num_gt_zero n then displayHistory B data st
          else Returned (displayEmptyHistory st)))))))"

definition loadHistory_catch :: "js_error \<Rightarrow> app_state \<Rightarrow> app_state" where
  "loadHistory_catch e st =
     displayEmptyHistory (st\<lparr>console := console st @ [LogHistoryFailed e]\<rparr>)"

definition loadHistory_resume :: "builtins \<Rightarrow> http_response \<Rightarrow> app_state \<Rightarrow> app_state" where
  "loadHistory_resume B response st =
     (case loadHistory_try B response st of
        Returned st1 \<Rightarrow> st1
      | Threw e st1 \<Rightarrow> loadHistory_catch e st1)"

subsection \<open>Completion and the dispatch of status events\<close>

text \<open>
  \<^verbatim>\<open>handleDownloadComplete\<close> switches to the complete section before it reads
  \<^verbatim>\<open>result.filename\<close>, and writes the filename text before it converts the id for the
  link; its last statement calls \<^verbatim>\<open>loadHistory\<close> without awaiting it. The
  \<^verbatim>\<open>download\<close> attribute of the link is a plain string attribute.
\<close>

definition handleDownloadComplete :: "builtins \<Rightarrow> jsval \<Rightarrow> app_state \<Rightarrow> outcome" where
  "handleDownloadComplete B result st =
     (let st1 = (hideAllSections st)\<lparr>completeSection_hidden := False\<rparr>
      in case get_prop result (js ''filename'') of
           Inl e \<Rightarrow> Threw e st1
         | Inr filename \<Rightarrow>
        (case textContent_of B filename of
           Inl e \<Rightarrow> Threw e st1
         | Inr filename_text \<Rightarrow>
        (let st2 = st1\<lparr>completeFilename_text := filename_text\<rparr>
         in case get_prop result (js ''id'') of
              Inl e \<Rightarrow> Threw e st2
            | Inr ident \<Rightarrow>
           (case ToString B ident of
              Inl e \<Rightarrow> Threw e st2
            | Inr id_text \<Rightarrow>
           (let st3 = st2\<lparr>downloadFileBtn_href :=
                             js ''/api/downloads/'' @ id_text @ js ''/file''\<rparr>
            in case ToString B filename of
                 Inl e \<Rightarrow> Threw e st3
               | Inr download \<Rightarrow>
                   Returned
                     (loadHistory
                        (st3\<lparr>downloadFileBtn_download := download,
                             currentDownloadId := ident\<rparr>)))))))"

text \<open>The default of the processing message: U+30D5 U+30A1 U+30A4 U+30EB U+3092 U+51E6
  U+7406 U+4E2D and three full stops ("processing the file...").\<close>

definition processing_message :: jsstring where
  "processing_message =
     [0x30D5, 0x30A1, 0x30A4, 0x30EB, 0x3092, 0x51E6, 0x7406, 0x4E2D] @ js ''...''"

definition handleWebSocketMessage :: "builtins \<Rightarrow> jsval \<Rightarrow> app_state \<Rightarrow> outcome" where
  "handleWebSocketMessage B data st =
     (case get_prop data (js ''status'') of
        Inl e \<Rightarrow> Threw e st
      | Inr status \<Rightarrow>
          if status = JStr (js ''downloading'') then updateProgress B data st
          else if status = JStr (js ''finished'') then
            (case get_prop data (js ''message'') of
               Inl e \<Rightarrow> Threw e st
             | Inr message \<Rightarrow>
                 (case textContent_of B (js_or message (JStr processing_message)) of
                    Inl e \<Rightarrow> Threw e st
                  | Inr m \<Rightarrow> Returned (st\<lparr>progressMessage_text := m\<rparr>)))
          else if status = JStr (js ''completed'') then
            (case get_prop data (js ''result'') of
               Inl e \<Rightarrow> Threw e st
             | Inr result \<Rightarrow> handleDownloadComplete B result st)
          else if status = JStr (js ''error'') then
            (case get_prop data (js ''error'') of
               Inl e \<Rightarrow> Threw e st
             | Inr err \<Rightarrow> showError B err st)
          else Returned st)"

subsection \<open>The two requests the user starts\<close>

text \<open>
  \<^verbatim>\<open>String.prototype.trim\<close> removes white space and line terminators from both ends.
\<close>

definition is_white_space :: "16 word \<Rightarrow> bool" where
  "is_white_space c =
     (c \<in> set [0x0009, 0x000A, 0x000B, 0x000C, 0x000D, 0x0020, 0x00A0, 0x1680,
                0x2000, 0x2001, 0x2002, 0x2003, 0x2004, 0x2005, 0x2006, 0x2007,
                0x2008, 0x2009, 0x200A, 0x2028, 0x2029, 0x202F, 0x205F, 0x3000, 0xFEFF])"

definition trim :: "jsstring \<Rightarrow> jsstring" where
  "trim s = rev (dropWhile is_white_space (rev (dropWhile is_white_space s)))"

text \<open>The message of the validation error: \<^verbatim>\<open>URL\<close>, then U+3092 U+5165 U+529B U+3057
  U+3066 U+304F U+3060 U+3055 U+3044 ("please enter a URL").\<close>

definition enter_url_message :: jsstring where
  "enter_url_message =
     js ''URL'' @ [0x3092, 0x5165, 0x529B, 0x3057, 0x3066, 0x304F, 0x3060, 0x3055, 0x3044]"

text \<open>
  \<^verbatim>\<open>handleFetchInfo\<close> and \<^verbatim>\<open>handleDownload\<close> are asynchronous; each is modelled up to
  its first \<^verbatim>\<open>await\<close>, the point where the request has been issued and the function
  waits for the response. An empty string is falsy, so \<^verbatim>\<open>!url\<close> is \<open>url = []\<close>.
  Showing the validation message cannot throw (the message is a string), so the state of
  its outcome is taken.
\<close>

definition handleFetchInfo :: "builtins \<Rightarrow> app_state \<Rightarrow> app_state" where
  "handleFetchInfo B st =
     (let url = trim (videoUrl_value st)
      in if url = [] then state_of (showError B (JStr enter_url_message) st)
         else (let st1 = st\<lparr>fetchInfoBtn := setButtonLoading True (fetchInfoBtn st)\<rparr>;
                   st2 = hideAllSections st1
               in fetch (PostJson (js ''/api/video-info'') (JObj [(js ''url'', JStr url)])) st2))"

fun getSelectedFormatType :: "(bool \<times> jsstring) list \<Rightarrow> jsstring" where
  "getSelectedFormatType [] = js ''video''"
| "getSelectedFormatType ((checked, val) # radios) =
     (if checked then val else getSelectedFormatType radios)"

text \<open>
  \<open>handleDownload_prepare\<close> is \<^verbatim>\<open>handleDownload\<close> from the guard to the reset of the
  progress display, \<open>download_request\<close> the request built from the quality controls, and
  \<open>handleDownload\<close> the whole function up to its first \<^verbatim>\<open>await\<close>. The reset cannot throw
  (its argument is an object literal), so the state of its outcome is taken.
\<close>

definition progress_reset :: jsval where
  "progress_reset =
     JObj [(js ''progress'', JNum (Fin 0)), (js ''speed'', JNum (Fin 0)),
           (js ''eta'', JNum (Fin 0))]"

definition handleDownload_prepare :: "builtins \<Rightarrow> app_state \<Rightarrow> app_state" where
  "handleDownload_prepare B st =
     (let st1 = st\<lparr>downloadBtn := setButtonLoading True (downloadBtn st)\<rparr>;
          st2 = (hideAllSections st1)\<lparr>progressSection_hidden := False\<rparr>
      in state_of (updateProgress B progress_reset st2))"

definition download_request :: "jsstring \<Rightarrow> app_state \<Rightarrow> http_request" where
  "download_request url st =
     (let formatType = getSelectedFormatType (formatTypeRadios st);
          quality = (if formatType = js ''video'' then videoQuality_value st else js ''best'');
          audioOnly = (formatType = js ''audio'');
          audioQuality = (if formatType = js ''audio'' then audioQuality_value st else js ''192'')
      in PostJson (js ''/api/download'')
           (JObj [(js ''url'', JStr url), (js ''quality'', JStr quality),
                  (js ''audio_only'', JBool audioOnly),
                  (js ''audio_quality'', JStr audioQuality)]))"

definition handleDownload :: "builtins \<Rightarrow> app_state \<Rightarrow> app_state" where
  "handleDownload B st =
     (let url = trim (videoUrl_value st)
      in if url = [] then state_of (showError B (JStr enter_url_message) st)
         else (let st3 = handleDownload_prepare B st
               in fetch (download_request url st3) st3))"

section \<open>The live status channel\<close>

text \<open>
  \<^verbatim>\<open>initWebSocket\<close> creates a socket for the page's own host and stores it in the global
  \<^verbatim>\<open>websocket\<close>; a socket is named by its position in \<open>sockets\<close>. The four handlers it
  installs are the same for every socket, so they are functions of the state alone.
\<close>

definition wsUrl :: "app_state \<Rightarrow> jsstring" where
  "wsUrl st =
     (let protocol = (if location_protocol st = js ''https:'' then js ''wss:'' else js ''ws:'')
      in protocol @ js ''//'' @ location_host st @ js ''/ws'')"

definition initWebSocket :: "app_state \<Rightarrow> app_state" where
  "initWebSocket st =
     st\<lparr>sockets := sockets st @ [\<lparr>ws_url = wsUrl st, ws_readyState = Connecting\<rparr>],
        websocket := Some (length (sockets st))\<rparr>"

definition setTimeout :: "callback \<Rightarrow> nat \<Rightarrow> app_state \<Rightarrow> app_state" where
  "setTimeout cb delay st =
     st\<lparr>timers := timers st @ [\<lparr>timer_delay = delay, timer_callback = cb\<rparr>]\<rparr>"

definition onopen :: "app_state \<Rightarrow> app_state" where
  "onopen st = st\<lparr>console := console st @ [LogOpen]\<rparr>"

definition onmessage :: "builtins \<Rightarrow> jsstring \<Rightarrow> app_state \<Rightarrow> outcome" where
  "onmessage B payload st =
     (case JSON_parse B payload of
        None \<Rightarrow> Threw SyntaxError st
      | Some data \<Rightarrow> handleWebSocketMessage B data st)"

definition onerror :: "app_state \<Rightarrow> app_state" where
  "onerror st = st\<lparr>console := console st @ [LogError]\<rparr>"

definition onclose :: "app_state \<Rightarrow> app_state" where
  "onclose st = setTimeout InitWebSocket 3000 (st\<lparr>console := console st @ [LogClosed]\<rparr>)"

definition DOMContentLoaded :: "app_state \<Rightarrow> app_state" where
  "DOMContentLoaded st = loadHistory (initWebSocket st)"

subsection \<open>The event loop\<close>

text \<open>
  One event of the page at a time. A socket opens once, from \<open>Connecting\<close>; it delivers
  messages while \<open>Open\<close>; it may report an error until it is closed; it closes once, and
  a closed socket delivers nothing more (the WebSocket interface of the browser). A
  pending timer fires once and is removed. A handler that throws leaves its writes and the
  browser reports the error on the console. \<open>step\<close> is \<open>None\<close> when the event cannot
  occur in the state. The clicks run the handlers up to their first \<^verbatim>\<open>await\<close>; a
  response to the history request may arrive at any time.
\<close>

datatype event =
    WsOpen nat
  | WsMessage nat jsstring
  | WsError nat
  | WsClose nat
  | TimerFire nat
  | ClickFetchInfo
  | ClickDownload
  | ClickReset
  | HistoryResponse http_response

definition socket_state :: "app_state \<Rightarrow> nat \<Rightarrow> ready_state option" where
  "socket_state st i =
     (if i < length (sockets st) then Some (ws_readyState (sockets st ! i)) else None)"

definition set_readyState :: "nat \<Rightarrow> ready_state \<Rightarrow> app_state \<Rightarrow> app_state" where
  "set_readyState i r st = st\<lparr>sockets := (sockets st)[i := (sockets st ! i)\<lparr>ws_readyState := r\<rparr>]\<rparr>"

definition uncaught :: "outcome \<Rightarrow> app_state" where
  "uncaught r =
     (case r of
        Returned s \<Rightarrow> s
      | Threw e s \<Rightarrow> s\<lparr>console := console s @ [LogUncaught e]\<rparr>)"

definition run_callback :: "callback \<Rightarrow> app_state \<Rightarrow> app_state" where
  "run_callback cb st = (case cb of InitWebSocket \<Rightarrow> initWebSocket st)"

definition remove_nth :: "nat \<Rightarrow> 'a list \<Rightarrow> 'a list" where
  "remove_nth k xs = take k xs @ drop (Suc k) xs"

definition step :: "builtins \<Rightarrow> event \<Rightarrow> app_state \<Rightarrow> app_state option" where
  "step B ev st =
     (case ev of
        WsOpen i \<Rightarrow>
          if socket_state st i = Some Connecting
          then Some (onopen (set_readyState i Open st)) else None
      | WsMessage i payload \<Rightarrow>
          if socket_state st i = Some Open
          then Some (uncaught (onmessage B payload st)) else None
      | WsError i \<Rightarrow>
          if socket_state st i = Some Connecting \<or> socket_state st i = Some Open
          then Some (onerror st) else None
      | WsClose i \<Rightarrow>
          if socket_state st i = Some Connecting \<or> socket_state st i = Some Open
          then Some (onclose (set_readyState i Closed st)) else None
      | TimerFire k \<Rightarrow>
          if k < length (timers st)
          then Some (run_callback (timer_callback (timers st ! k))
                       (st\<lparr>timers := remove_nth k (timers st)\<rparr>))
          else None
      | ClickFetchInfo \<Rightarrow> Some (handleFetchInfo B st)
      | ClickDownload \<Rightarrow> Some (handleDownload B st)
      | ClickReset \<Rightarrow> Some (resetForm st)
      | HistoryResponse response \<Rightarrow> Some (loadHistory_resume B response st))"

fun run :: "builtins \<Rightarrow> event list \<Rightarrow> app_state \<Rightarrow> app_state option" where
  "run B [] st = Some st"
| "run B (ev # evs) st =
     (case step B ev st of None \<Rightarrow> None | Some st1 \<Rightarrow> run B evs st1)"

text \<open>
  A socket is live until it is closed. \<open>reconnect_timer\<close> is the timer the close handler
  sets. \<open>channel_inv\<close> is the invariant of the channel: the live sockets and the pending
  timers are one in all, and every pending timer is a \<open>reconnect_timer\<close>.
\<close>

definition live :: "ws \<Rightarrow> bool" where
  "live w = (ws_readyState w \<noteq> Closed)"

definition reconnect_timer :: timer where
  "reconnect_timer = \<lparr>timer_delay = 3000, timer_callback = InitWebSocket\<rparr>"

definition channel_inv :: "app_state \<Rightarrow> bool" where
  "channel_inv st =
     (length (filter live (sockets st)) + length (timers st) = 1 \<and>
      set (timers st) \<subseteq> {reconnect_timer})"

text \<open>The history element built from an item.\<close>

definition built_from :: "builtins \<Rightarrow> jsval \<Rightarrow> dom_node \<Rightarrow> bool" where
  "built_from B item node = (createHistoryItem B item = Inr node)"

section \<open>Example inputs\<close>

text \<open>
  An instance of the parameters and some pages, for the examples that follow each
  property: a parser that accepts three texts (\<^verbatim>\<open>null\<close>, a history of two entries, a
  history of an entry and \<^verbatim>\<open>null\<close>) and rejects every other one; a page as it is loaded (no socket, timer or request yet) with a
  blank URL field and the preview section shown; the same page with a URL typed in; and
  the same page with an open socket.
\<close>

definition history_body :: jsstring where
  \<open>history_body =
     js ''{"success":true,"data":[{"id":"a","title":"A"},{"id":"b","title":"B"}]}''\<close>

definition history_items :: "jsval list" where
  "history_items =
     [JObj [(js ''id'', JStr (js ''a'')), (js ''title'', JStr (js ''A''))],
      JObj [(js ''id'', JStr (js ''b'')), (js ''title'', JStr (js ''B''))]]"

definition history_result :: jsval where
  "history_result = JObj [(js ''success'', JBool True), (js ''data'', JArr history_items)]"

definition history_null_body :: jsstring where
  \<open>history_null_body = js ''{"success":true,"data":[{"id":"a","title":"A"},null]}''\<close>

definition history_null_items :: "jsval list" where
  "history_null_items =
     [JObj [(js ''id'', JStr (js ''a'')), (js ''title'', JStr (js ''A''))], JNull]"

definition history_null_result :: jsval where
  "history_null_result =
     JObj [(js ''success'', JBool True), (js ''data'', JArr history_null_items)]"

text \<open>The elements the history of two entries shows under \<open>sample_builtins\<close>.\<close>

definition history_nodes :: "dom_node list" where
  "history_nodes =
     [HistoryItem placeholder_thumbnail (js ''A'') (js ''Invalid Date'')
        (JObj [(js ''id'', JStr (js ''a'')), (js ''title'', JStr (js ''A''))]),
      HistoryItem placeholder_thumbnail (js ''B'') (js ''Invalid Date'')
        (JObj [(js ''id'', JStr (js ''b'')), (js ''title'', JStr (js ''B''))])]"

definition sample_builtins :: builtins where
  "sample_builtins =
     \<lparr>JSON_parse =
        (\<lambda>s. if s = js ''null'' then Some JNull
             else if s = history_body then Some history_result
             else if s = history_null_body then Some history_null_result
             else None),
      StringToNumber = (\<lambda>s. NaN),
      Number_toString_ext = (\<lambda>q. js ''?''),
      Double_round = (\<lambda>q. q),
      Date_toLocaleString = (\<lambda>v. js ''Invalid Date'')\<rparr>"

definition idle_button :: button where
  "idle_button = \<lparr>disabled = False, style_opacity = js ''1'', style_cursor = js ''pointer''\<rparr>"

definition sample_page :: app_state where
  "sample_page =
     \<lparr>currentVideoInfo = JNull, websocket = None, currentDownloadId = JNull,
      videoUrl_value = js ''  '',
      fetchInfoBtn = idle_button, downloadBtn = idle_button,
      previewSection_hidden = False, progressSection_hidden = True,
      completeSection_hidden = True, errorSection_hidden = True,
      progressBar_style_width = js ''70%'', progressPercent_text = js ''70%'',
      progressSpeed_text = js ''1.50 MB/s'', progressEta_text = js ''9'' @ [0x79D2] @ nokori,
      progressMessage_text = [], completeFilename_text = [],
      downloadFileBtn_href = [], downloadFileBtn_download = [],
      errorMessage_text = [], historyList = [],
      formatTypeRadios = [(True, js ''video''), (False, js ''audio'')],
      videoQuality_value = js ''720p'', audioQuality_value = js ''192'',
      location_protocol = js ''http:'', location_host = js ''localhost:8000'',
      sockets = [], timers = [], requests = [], console = []\<rparr>"

definition typed_page :: app_state where
  "typed_page = sample_page\<lparr>videoUrl_value := js '' https://youtu.be/x ''\<rparr>"

definition open_page :: app_state where
  "open_page =
     sample_page\<lparr>sockets := [\<lparr>ws_url = js ''ws://localhost:8000/ws'', ws_readyState = Open\<rparr>],
                 websocket := Some 0\<rparr>"

text \<open>
  A run of the channel: the first socket opens, reports an error and closes; the timer
  fires; the second socket closes before it opens.
\<close>

definition close_twice :: "event list" where
  "close_twice = [WsOpen 0, WsError 0, WsClose 0, TimerFire 0, WsClose 1]"

text \<open>
  The events of the scenarios: a \<^verbatim>\<open>downloading\<close> event with progress 42.7, speed
  2097152 and eta 75, a \<^verbatim>\<open>downloading\<close> event with progress 49.5, eta 45 and no
  speed, and a \<^verbatim>\<open>completed\<close> event for the file \<^verbatim>\<open>video.mp4\<close> with id \<^verbatim>\<open>abc\<close>.
\<close>

definition half_event :: jsval where
  "half_event =
     JObj [(js ''status'', JStr (js ''downloading'')), (js ''progress'', JNum (Fin (99 / 2))),
           (js ''eta'', JNum (Fin 45))]"

definition scenario_event :: jsval where
  "scenario_event =
     JObj [(js ''status'', JStr (js ''downloading'')), (js ''progress'', JNum (Fin (427 / 10))),
           (js ''speed'', JNum (Fin 2097152)), (js ''eta'', JNum (Fin 75))]"

definition completed_event :: jsval where
  "completed_event =
     JObj [(js ''status'', JStr (js ''completed'')),
           (js ''result'', JObj [(js ''id'', JStr (js ''abc'')),
                                 (js ''filename'', JStr (js ''video.mp4''))])]"

section \<open>Properties of the conversions\<close>

lemma ToBoolean_undefined: "\<not> ToBoolean JUndefined"
  by (simp add: ToBoolean_def)

lemma js_or_truthy: "ToBoolean a \<Longrightarrow> js_or a b = a"
  by (simp add: js_or_def)

lemma js_or_falsy: "\<not> ToBoolean a \<Longrightarrow> js_or a b = b"
  by (simp add: js_or_def)

lemma ToBoolean_zero: "\<not> ToBoolean (JNum (Fin 0))"
  by (simp add: ToBoolean_def)

lemma ToNumber_number: "ToNumber B (JNum x) = Inr x"
  by (simp add: ToNumber_def ToPrimitive_def ToNumber_primitive_def)

lemma ToString_string: "ToString B (JStr s) = Inr s"
  by simp

lemma round_zero_text: "Number_toString B (Math_round (Fin 0)) @ js ''%'' = js ''0%''"
  by code_simp

lemma formatSpeed_falsy: "\<not> ToBoolean v \<Longrightarrow> formatSpeed B v = Inr (js ''0 MB/s'')"
  by (simp add: formatSpeed_def)

lemma formatEta_falsy: "\<not> ToBoolean v \<Longrightarrow> formatEta B v = Inr (js ''--'' @ nokori)"
  by (simp add: formatEta_def)

lemma formatSpeed_truthy:
  "ToBoolean v \<Longrightarrow> ToNumber B v = Inr y \<Longrightarrow>
     formatSpeed B v = Inr (toFixed2 B (num_div B y (1024 * 1024)) @ js '' MB/s'')"
  by (simp add: formatSpeed_def)

lemma formatEta_truthy:
  "ToBoolean v \<Longrightarrow> ToNumber B v = Inr z \<Longrightarrow>
     formatEta B v =
       Inr (if num_gt_zero (Math_floor (num_div B z 60))
            then Number_toString B (Math_floor (num_div B z 60)) @ [0x5206] @
                 Number_toString B (Math_floor (num_mod z 60)) @ [0x79D2] @ nokori
            else Number_toString B (Math_floor (num_mod z 60)) @ [0x79D2] @ nokori)"
  by (simp add: formatEta_def Let_def)

lemma formatSpeed_throws:
  "formatSpeed B v = Inl e \<Longrightarrow> ToBoolean v \<and> ToNumber B v = Inl e"
  by (auto simp: formatSpeed_def Let_def split: if_splits sum.splits)

lemma formatEta_throws:
  "formatEta B v = Inl e \<Longrightarrow> ToBoolean v \<and> ToNumber B v = Inl e"
  by (auto simp: formatEta_def Let_def split: if_splits sum.splits)

text \<open>A value whose properties can be read at all can be read at every name.\<close>

lemma get_prop_total:
  assumes "get_prop d k = Inr v"
  obtains w where "get_prop d k' = Inr w"
  using assms by (cases "get_prop d k'") (auto simp: get_prop_def split: jsval.splits)

section \<open>Properties of the progress display\<close>

lemma updateProgress_returns:
  assumes "get_prop d (js ''progress'') = Inr p"
    and "get_prop d (js ''speed'') = Inr s"
    and "get_prop d (js ''eta'') = Inr t"
    and "ToNumber B (js_or p (JNum (Fin 0))) = Inr n"
    and "formatSpeed B (js_or s (JNum (Fin 0))) = Inr speed"
    and "formatEta B (js_or t (JNum (Fin 0))) = Inr eta"
  shows "updateProgress B d st =
     Returned
       (st\<lparr>progressBar_style_width := Number_toString B (Math_round n) @ js ''%'',
           progressPercent_text := Number_toString B (Math_round n) @ js ''%'',
           progressSpeed_text := speed,
           progressEta_text := eta\<rparr>)"
  using assms by (simp add: updateProgress_def Let_def)

text \<open>
  Whether \<^verbatim>\<open>updateProgress\<close> throws, and what it writes, depends on the event alone;
  when it throws the state is untouched.
\<close>

lemma updateProgress_cases:
  "(\<exists>e. \<forall>st. updateProgress B d st = Threw e st) \<or>
   (\<exists>w sp et. \<forall>st. updateProgress B d st =
      Returned (st\<lparr>progressBar_style_width := w, progressPercent_text := w,
                   progressSpeed_text := sp, progressEta_text := et\<rparr>))"
proof (cases "get_prop d (js ''progress'')")
  case (Inl e)
  then show ?thesis by (simp add: updateProgress_def)
next
  case p: (Inr p)
  obtain s where s: "get_prop d (js ''speed'') = Inr s"
    using p by (rule get_prop_total)
  obtain t where t: "get_prop d (js ''eta'') = Inr t"
    using p by (rule get_prop_total)
  show ?thesis
  proof (cases "ToNumber B (js_or p (JNum (Fin 0)))")
    case (Inl e)
    then show ?thesis using p by (simp add: updateProgress_def)
  next
    case n: (Inr n)
    show ?thesis
    proof (cases "formatSpeed B (js_or s (JNum (Fin 0)))")
      case (Inl e)
      then show ?thesis using p n s by (simp add: updateProgress_def)
    next
      case sp: (Inr speed)
      show ?thesis
      proof (cases "formatEta B (js_or t (JNum (Fin 0)))")
        case (Inl e)
        then show ?thesis using p n s sp t by (simp add: updateProgress_def)
      next
        case (Inr eta)
        have "\<forall>st. updateProgress B d st =
            Returned (st\<lparr>progressBar_style_width := Number_toString B (Math_round n) @ js ''%'',
              progressPercent_text := Number_toString B (Math_round n) @ js ''%'',
              progressSpeed_text := speed, progressEta_text := eta\<rparr>)"
          using updateProgress_returns [OF p s t n sp Inr] by blast
        then show ?thesis by blast
      qed
    qed
  qed
qed

lemma updateProgress_Threw:
  assumes "updateProgress B d st = Threw e s'"
    and "get_prop d (js ''progress'') = Inr p"
    and "get_prop d (js ''speed'') = Inr s"
    and "get_prop d (js ''eta'') = Inr t"
  shows "s' = st \<and>
         ((ToBoolean p \<and> ToNumber B p = Inl e) \<or> (ToBoolean s \<and> ToNumber B s = Inl e) \<or>
          (ToBoolean t \<and> ToNumber B t = Inl e))"
proof -
  have z: "ToNumber B (JNum (Fin 0)) = Inr (Fin 0)" by (rule ToNumber_number)
  show ?thesis
  proof (cases "ToNumber B (js_or p (JNum (Fin 0)))")
    case (Inl e')
    then have "ToBoolean p \<and> ToNumber B p = Inl e'"
      using z by (cases "ToBoolean p") (simp_all add: js_or_def)
    moreover have "updateProgress B d st = Threw e' st"
      using Inl assms(2) by (simp add: updateProgress_def)
    ultimately show ?thesis using assms(1) by simp
  next
    case n: (Inr n)
    show ?thesis
    proof (cases "formatSpeed B (js_or s (JNum (Fin 0)))")
      case (Inl e')
      from formatSpeed_throws [OF this] have "ToBoolean s \<and> ToNumber B s = Inl e'"
        using ToBoolean_zero by (cases "ToBoolean s") (simp_all add: js_or_def)
      moreover have "updateProgress B d st = Threw e' st"
        using Inl n assms(2,3) by (simp add: updateProgress_def)
      ultimately show ?thesis using assms(1) by simp
    next
      case sp: (Inr speed)
      show ?thesis
      proof (cases "formatEta B (js_or t (JNum (Fin 0)))")
        case (Inl e')
        from formatEta_throws [OF this] have "ToBoolean t \<and> ToNumber B t = Inl e'"
          using ToBoolean_zero by (cases "ToBoolean t") (simp_all add: js_or_def)
        moreover have "updateProgress B d st = Threw e' st"
          using Inl n sp assms(2,3,4) by (simp add: updateProgress_def)
        ultimately show ?thesis using assms(1) by simp
      next
        case (Inr eta)
        show ?thesis
          using assms(1) updateProgress_returns [OF assms(2,3,4) n sp Inr, of st] by simp
      qed
    qed
  qed
qed

lemma updateProgress_defaulted:
  assumes "get_prop d (js ''progress'') = Inr p"
    and "get_prop d (js ''speed'') = Inr s"
    and "get_prop d (js ''eta'') = Inr t"
    and "ToBoolean p \<longrightarrow> ToNumber B p = Inr x"
    and "ToBoolean s \<longrightarrow> ToNumber B s = Inr y"
    and "ToBoolean t \<longrightarrow> ToNumber B t = Inr z"
  shows "updateProgress B d st =
     Returned
       (st\<lparr>progressBar_style_width :=
             (if ToBoolean p then Number_toString B (Math_round x) @ js ''%'' else js ''0%''),
           progressPercent_text :=
             (if ToBoolean p then Number_toString B (Math_round x) @ js ''%'' else js ''0%''),
           progressSpeed_text :=
             (if ToBoolean s then toFixed2 B (num_div B y (1024 * 1024)) @ js '' MB/s''
              else js ''0 MB/s''),
           progressEta_text :=
             (if ToBoolean t
              then (if num_gt_zero (Math_floor (num_div B z 60))
                    then Number_toString B (Math_floor (num_div B z 60)) @ [0x5206] @
                         Number_toString B (Math_floor (num_mod z 60)) @ [0x79D2] @ nokori
                    else Number_toString B (Math_floor (num_mod z 60)) @ [0x79D2] @ nokori)
              else js ''--'' @ nokori)\<rparr>)"
proof -
  have n: "ToNumber B (js_or p (JNum (Fin 0))) = Inr (if ToBoolean p then x else Fin 0)"
    using assms(4) by (simp add: js_or_def ToNumber_number)
  have sp: "formatSpeed B (js_or s (JNum (Fin 0))) =
      Inr (if ToBoolean s then toFixed2 B (num_div B y (1024 * 1024)) @ js '' MB/s''
           else js ''0 MB/s'')"
    using assms(5) by (simp add: js_or_def formatSpeed_truthy formatSpeed_falsy ToBoolean_zero)
  have et: "formatEta B (js_or t (JNum (Fin 0))) =
      Inr (if ToBoolean t
           then (if num_gt_zero (Math_floor (num_div B z 60))
                 then Number_toString B (Math_floor (num_div B z 60)) @ [0x5206] @
                      Number_toString B (Math_floor (num_mod z 60)) @ [0x79D2] @ nokori
                 else Number_toString B (Math_floor (num_mod z 60)) @ [0x79D2] @ nokori)
           else js ''--'' @ nokori)"
    using assms(6) by (simp add: js_or_def formatEta_truthy formatEta_falsy ToBoolean_zero)
  show ?thesis
    unfolding updateProgress_returns [OF assms(1,2,3) n sp et]
    using round_zero_text [of B] by simp
qed

text \<open>
  C2. For a status event whose \<^verbatim>\<open>status\<close> is \<^verbatim>\<open>downloading\<close> the three fields can be
  read, \<^verbatim>\<open>undefined\<close> when absent. A field that is absent, or falsy in another way, is
  replaced by zero and never converted, so it cannot make the handler throw: the bar
  width and the percent text are then \<^verbatim>\<open>0%\<close>, the speed \<^verbatim>\<open>0 MB/s\<close>, the eta the text
  of an unknown estimate. A field that is present and truthy is converted to a number and
  rendered from it: the rounded percentage, the speed in units of \<open>1024 * 1024\<close> with
  two decimals, the minutes and seconds of the eta. When every conversion of a present
  field succeeds the handler returns with exactly these four writes; when the handler
  throws, the error comes from the conversion of a present, truthy field, and nothing was
  written.
\<close>

theorem downloading_defaults:
  assumes "get_prop d (js ''status'') = Inr (JStr (js ''downloading''))"
  shows "\<exists>p s t.
     get_prop d (js ''progress'') = Inr p \<and> get_prop d (js ''speed'') = Inr s \<and>
     get_prop d (js ''eta'') = Inr t \<and>
     (\<forall>x y z.
        (ToBoolean p \<longrightarrow> ToNumber B p = Inr x) \<and> (ToBoolean s \<longrightarrow> ToNumber B s = Inr y) \<and>
        (ToBoolean t \<longrightarrow> ToNumber B t = Inr z) \<longrightarrow>
        handleWebSocketMessage B d st =
          Returned
            (st\<lparr>progressBar_style_width :=
                  (if ToBoolean p then Number_toString B (Math_round x) @ js ''%''
                   else js ''0%''),
                progressPercent_text :=
                  (if ToBoolean p then Number_toString B (Math_round x) @ js ''%''
                   else js ''0%''),
                progressSpeed_text :=
                  (if ToBoolean s then toFixed2 B (num_div B y (1024 * 1024)) @ js '' MB/s''
                   else js ''0 MB/s''),
                progressEta_text :=
                  (if ToBoolean t
                   then (if num_gt_zero (Math_floor (num_div B z 60))
                         then Number_toString B (Math_floor (num_div B z 60)) @ [0x5206] @
                              Number_toString B (Math_floor (num_mod z 60)) @ [0x79D2] @ nokori
                         else Number_toString B (Math_floor (num_mod z 60)) @ [0x79D2] @ nokori)
                   else js ''--'' @ nokori)\<rparr>)) \<and>
     (\<forall>e s'. handleWebSocketMessage B d st = Threw e s' \<longrightarrow>
        s' = st \<and>
        ((ToBoolean p \<and> ToNumber B p = Inl e) \<or> (ToBoolean s \<and> ToNumber B s = Inl e) \<or>
         (ToBoolean t \<and> ToNumber B t = Inl e))) \<and>
     \<not> ToBoolean JUndefined"
proof -
  obtain p where p: "get_prop d (js ''progress'') = Inr p"
    using assms by (rule get_prop_total)
  obtain s where s: "get_prop d (js ''speed'') = Inr s"
    using assms by (rule get_prop_total)
  obtain t where t: "get_prop d (js ''eta'') = Inr t"
    using assms by (rule get_prop_total)
  have h: "handleWebSocketMessage B d st = updateProgress B d st"
    using assms by (simp add: handleWebSocketMessage_def)
  show ?thesis
    unfolding h
    using p s t updateProgress_defaulted [OF p s t, of B _ _ _ st]
      updateProgress_Threw [OF _ p s t, of B st] ToBoolean_undefined
    by blast
qed

lemma half_event_props:
  "get_prop half_event (js ''status'') = Inr (JStr (js ''downloading''))"
  "get_prop half_event (js ''progress'') = Inr (JNum (Fin (99 / 2)))"
  "get_prop half_event (js ''speed'') = Inr JUndefined"
  "get_prop half_event (js ''eta'') = Inr (JNum (Fin 45))"
  by (simp_all add: half_event_def get_prop_def js_def)

lemma half_percent: "Number_toString B (Math_round (Fin (99 / 2))) @ js ''%'' = js ''50%''"
  by code_simp

lemma half_eta:
  "\<not> num_gt_zero (Math_floor (num_div B (Fin 45) 60)) \<and>
   Number_toString B (Math_floor (num_mod (Fin 45) 60)) = js ''45''"
  by code_simp

theorem downloading_defaults_witness:
  "get_prop half_event (js ''status'') = Inr (JStr (js ''downloading'')) \<and>
   handleWebSocketMessage sample_builtins half_event sample_page =
     Returned (sample_page\<lparr>progressBar_style_width := js ''50%'',
                 progressPercent_text := js ''50%'',
                 progressSpeed_text := js ''0 MB/s'',
                 progressEta_text := js ''45'' @ [0x79D2] @ nokori\<rparr>)"
proof -
  let ?B = sample_builtins
  have b: "ToBoolean (JNum (Fin (99 / 2)))" "ToBoolean (JNum (Fin 45))"
    by (simp_all add: ToBoolean_def)
  obtain p s t where g: "get_prop half_event (js ''progress'') = Inr p"
      "get_prop half_event (js ''speed'') = Inr s" "get_prop half_event (js ''eta'') = Inr t"
    and r: "\<And>x y z.
        (ToBoolean p \<longrightarrow> ToNumber ?B p = Inr x) \<and> (ToBoolean s \<longrightarrow> ToNumber ?B s = Inr y) \<and>
        (ToBoolean t \<longrightarrow> ToNumber ?B t = Inr z) \<Longrightarrow>
        handleWebSocketMessage ?B half_event sample_page =
          Returned
            (sample_page\<lparr>progressBar_style_width :=
                  (if ToBoolean p then Number_toString ?B (Math_round x) @ js ''%''
                   else js ''0%''),
                progressPercent_text :=
                  (if ToBoolean p then Number_toString ?B (Math_round x) @ js ''%''
                   else js ''0%''),
                progressSpeed_text :=
                  (if ToBoolean s then toFixed2 ?B (num_div ?B y (1024 * 1024)) @ js '' MB/s''
                   else js ''0 MB/s''),
                progressEta_text :=
                  (if ToBoolean t
                   then (if num_gt_zero (Math_floor (num_div ?B z 60))
                         then Number_toString ?B (Math_floor (num_div ?B z 60)) @ [0x5206] @
                              Number_toString ?B (Math_floor (num_mod z 60)) @ [0x79D2] @ nokori
                         else Number_toString ?B (Math_floor (num_mod z 60)) @ [0x79D2] @ nokori)
                   else js ''--'' @ nokori)\<rparr>)"
    using downloading_defaults [OF half_event_props(1), of ?B sample_page] by blast
  from g have e: "p = JNum (Fin (99 / 2))" "s = JUndefined" "t = JNum (Fin 45)"
    by (simp_all add: half_event_props)
  have "(ToBoolean p \<longrightarrow> ToNumber ?B p = Inr (Fin (99 / 2))) \<and>
        (ToBoolean s \<longrightarrow> ToNumber ?B s = Inr NaN) \<and>
        (ToBoolean t \<longrightarrow> ToNumber ?B t = Inr (Fin 45))"
    by (simp add: e ToNumber_number ToBoolean_undefined)
  from r [OF this] show ?thesis
    using half_event_props(1) by (simp add: e b ToBoolean_undefined half_percent half_eta)
qed

text \<open>A field that cannot be converted makes the handler throw, with nothing written.\<close>

lemma downloading_unconvertible:
  "handleWebSocketMessage B
     (JObj [(js ''status'', JStr (js ''downloading'')),
            (js ''speed'', JObj [(js ''toString'', JNum (Fin 1))])]) st = Threw TypeError st"
  by (simp add: handleWebSocketMessage_def updateProgress_def get_prop_def js_def js_or_def
      ToBoolean_def ToNumber_def ToPrimitive_def ToNumber_primitive_def formatSpeed_def)

text \<open>
  C6. Rendering progress is idempotent: applying \<^verbatim>\<open>updateProgress\<close> to the state left
  by \<^verbatim>\<open>updateProgress\<close> with the same event gives that state again, so the bar width and
  the three texts after two applications are those after one.
\<close>

theorem updateProgress_idempotent:
  "state_of (updateProgress B d (state_of (updateProgress B d st))) =
     state_of (updateProgress B d st)"
  using updateProgress_cases [of B d]
  by (auto simp: state_of_def)

lemma scenario_props:
  "get_prop scenario_event (js ''status'') = Inr (JStr (js ''downloading''))"
  "get_prop scenario_event (js ''progress'') = Inr (JNum (Fin (427 / 10)))"
  "get_prop scenario_event (js ''speed'') = Inr (JNum (Fin 2097152))"
  "get_prop scenario_event (js ''eta'') = Inr (JNum (Fin 75))"
  by (simp_all add: scenario_event_def get_prop_def js_def)

lemma scenario_number:
  "ToNumber B (js_or (JNum (Fin (427 / 10))) (JNum (Fin 0))) = Inr (Fin (427 / 10))"
  by (simp add: js_or_def ToBoolean_def ToNumber_number)

lemma scenario_percent:
  "Number_toString B (Math_round (Fin (427 / 10))) @ js ''%'' = js ''43%''"
  by code_simp

lemma scenario_speed:
  "formatSpeed B (js_or (JNum (Fin 2097152)) (JNum (Fin 0))) = Inr (js ''2.00 MB/s'')"
  by code_simp

lemma scenario_eta:
  "formatEta B (js_or (JNum (Fin 75)) (JNum (Fin 0))) =
     Inr (js ''1'' @ [0x5206] @ js ''15'' @ [0x79D2] @ nokori)"
  by code_simp

text \<open>
  The double nearest to 42.7 is \<open>6009258921336013 / 2^47\<close>; it rounds to 43 as the
  decimal does.
\<close>

lemma scenario_percent_double:
  "Number_toString B (Math_round (Fin (6009258921336013 / 140737488355328))) = js ''43''"
  by code_simp

text \<open>
  C7. The \<^verbatim>\<open>downloading\<close> event with progress 42.7, speed 2097152 and eta 75 sets the
  bar width and the percent text to \<^verbatim>\<open>43%\<close>, the speed to \<^verbatim>\<open>2.00 MB/s\<close> and the eta to
  \<^verbatim>\<open>1\<close>, the minutes sign, \<^verbatim>\<open>15\<close>, the seconds sign and the suffix \<open>nokori\<close>; nothing else
  changes.
\<close>

theorem scenario_rendering:
  "updateProgress B scenario_event st =
     Returned (st\<lparr>progressBar_style_width := js ''43%'',
                  progressPercent_text := js ''43%'',
                  progressSpeed_text := js ''2.00 MB/s'',
                  progressEta_text := js ''1'' @ [0x5206] @ js ''15'' @ [0x79D2] @ nokori\<rparr>) \<and>
   handleWebSocketMessage B scenario_event st = updateProgress B scenario_event st"
proof -
  have "updateProgress B scenario_event st =
      Returned (st\<lparr>progressBar_style_width := js ''43%'',
                  progressPercent_text := js ''43%'',
                  progressSpeed_text := js ''2.00 MB/s'',
                  progressEta_text := js ''1'' @ [0x5206] @ js ''15'' @ [0x79D2] @ nokori\<rparr>)"
    unfolding updateProgress_returns [OF scenario_props(2) scenario_props(3) scenario_props(4)
        scenario_number scenario_speed scenario_eta] scenario_percent ..
  moreover have "handleWebSocketMessage B scenario_event st = updateProgress B scenario_event st"
    by (simp add: handleWebSocketMessage_def scenario_props)
  ultimately show ?thesis by simp
qed

section \<open>Properties of the dispatch\<close>

text \<open>
  C3. An event whose \<^verbatim>\<open>status\<close> is none of \<^verbatim>\<open>downloading\<close>, \<^verbatim>\<open>finished\<close>,
  \<^verbatim>\<open>completed\<close> and \<^verbatim>\<open>error\<close> is ignored: the dispatch returns and the state of the
  page (display, requests, timers, sockets, console) is the one it started from.
\<close>

theorem unknown_status_ignored:
  assumes "get_prop d (js ''status'') = Inr status"
    and "status \<noteq> JStr (js ''downloading'')" and "status \<noteq> JStr (js ''finished'')"
    and "status \<noteq> JStr (js ''completed'')" and "status \<noteq> JStr (js ''error'')"
  shows "handleWebSocketMessage B d st = Returned st"
  using assms by (simp add: handleWebSocketMessage_def)

theorem unknown_status_ignored_witness:
  "handleWebSocketMessage sample_builtins (JObj [(js ''status'', JStr (js ''paused''))])
     sample_page = Returned sample_page"
proof -
  have g: "get_prop (JObj [(js ''status'', JStr (js ''paused''))]) (js ''status'') =
             Inr (JStr (js ''paused''))"
    by (simp add: get_prop_def)
  have n: "JStr (js ''paused'') \<noteq> JStr (js ''downloading'')"
    "JStr (js ''paused'') \<noteq> JStr (js ''finished'')"
    "JStr (js ''paused'') \<noteq> JStr (js ''completed'')"
    "JStr (js ''paused'') \<noteq> JStr (js ''error'')"
    by (simp_all add: js_def)
  show ?thesis by (rule unknown_status_ignored [OF g n])
qed

lemma completed_dispatch:
  assumes "get_prop d (js ''status'') = Inr (JStr (js ''completed''))"
    and "get_prop d (js ''result'') = Inr result"
  shows "handleWebSocketMessage B d st = handleDownloadComplete B result st"
proof -
  have ne: "JStr (js ''completed'') \<noteq> JStr (js ''downloading'')"
    "JStr (js ''completed'') \<noteq> JStr (js ''finished'')"
    by (simp_all add: js_def)
  show ?thesis using assms ne by (simp add: handleWebSocketMessage_def)
qed

text \<open>
  C5. A \<^verbatim>\<open>completed\<close> event whose \<^verbatim>\<open>result\<close> has an id and a filename that convert to
  strings (as every string, number and boolean does) makes the complete section the only
  visible one, sets the filename text, the link \<^verbatim>\<open>/api/downloads/<id>/file\<close> and its
  download name, stores the id, and issues exactly one request, the reload of the
  history; nothing else changes.
\<close>

theorem completed_shows_file:
  assumes "get_prop d (js ''status'') = Inr (JStr (js ''completed''))"
    and "get_prop d (js ''result'') = Inr result"
    and "get_prop result (js ''id'') = Inr ident"
    and "get_prop result (js ''filename'') = Inr filename"
    and "ToString B ident = Inr id_text"
    and "ToString B filename = Inr filename_text"
  shows "handleWebSocketMessage B d st =
           Returned
             (st\<lparr>previewSection_hidden := True, progressSection_hidden := True,
                 completeSection_hidden := False, errorSection_hidden := True,
                 completeFilename_text :=
                   (if filename = JUndefined \<or> filename = JNull then [] else filename_text),
                 downloadFileBtn_href := js ''/api/downloads/'' @ id_text @ js ''/file'',
                 downloadFileBtn_download := filename_text,
                 currentDownloadId := ident,
                 requests := requests st @ [Get (js ''/api/history'')]\<rparr>)"
proof -
  have t: "textContent_of B filename =
      Inr (if filename = JUndefined \<or> filename = JNull then [] else filename_text)"
    using assms(6) by (simp add: textContent_of_def)
  show ?thesis
    unfolding completed_dispatch [OF assms(1,2)]
    using assms(3,4,5,6) t
    by (simp add: handleDownloadComplete_def Let_def loadHistory_def fetch_def
        hideAllSections_def)
qed

theorem completed_shows_file_witness:
  "ToString sample_builtins (JStr (js ''abc'')) = Inr (js ''abc'') \<and>
   ToString sample_builtins (JStr (js ''video.mp4'')) = Inr (js ''video.mp4'') \<and>
   handleWebSocketMessage sample_builtins completed_event sample_page =
     Returned
       (sample_page\<lparr>previewSection_hidden := True, progressSection_hidden := True,
           completeSection_hidden := False, errorSection_hidden := True,
           completeFilename_text := js ''video.mp4'',
           downloadFileBtn_href := js ''/api/downloads/abc/file'',
           downloadFileBtn_download := js ''video.mp4'',
           currentDownloadId := JStr (js ''abc''),
           requests := [Get (js ''/api/history'')]\<rparr>)"
proof -
  let ?r = "JObj [(js ''id'', JStr (js ''abc'')), (js ''filename'', JStr (js ''video.mp4''))]"
  have g: "get_prop completed_event (js ''status'') = Inr (JStr (js ''completed''))"
    "get_prop completed_event (js ''result'') = Inr ?r"
    "get_prop ?r (js ''id'') = Inr (JStr (js ''abc''))"
    "get_prop ?r (js ''filename'') = Inr (JStr (js ''video.mp4''))"
    by (simp_all add: completed_event_def get_prop_def js_def)
  have c: "ToString sample_builtins (JStr (js ''abc'')) = Inr (js ''abc'')"
    "ToString sample_builtins (JStr (js ''video.mp4'')) = Inr (js ''video.mp4'')"
    by simp_all
  have r: "requests sample_page = []" by (simp add: sample_page_def)
  have j: "js ''/api/downloads/'' @ js ''abc'' @ js ''/file'' = js ''/api/downloads/abc/file''"
    by (simp add: js_def)
  show ?thesis
    using completed_shows_file [OF g c, of sample_page] r j by simp
qed

text \<open>
  An id that cannot be converted stops the handler at the link: the complete section is
  shown and the filename written, and no request is issued.
\<close>

lemma completed_unconvertible_id:
  assumes "get_prop d (js ''status'') = Inr (JStr (js ''completed''))"
    and "get_prop d (js ''result'') = Inr result"
    and "get_prop result (js ''id'') = Inr ident"
    and "get_prop result (js ''filename'') = Inr filename"
    and "ToString B ident = Inl e"
    and "textContent_of B filename = Inr filename_text"
  shows "handleWebSocketMessage B d st =
           Threw e
             (st\<lparr>previewSection_hidden := True, progressSection_hidden := True,
                 completeSection_hidden := False, errorSection_hidden := True,
                 completeFilename_text := filename_text\<rparr>)"
  unfolding completed_dispatch [OF assms(1,2)]
  using assms(3,4,5,6)
  by (simp add: handleDownloadComplete_def Let_def hideAllSections_def)

text \<open>
  C10. A payload that \<^verbatim>\<open>JSON.parse\<close> rejects makes the message handler throw the
  SyntaxError before the dispatch: the state is the one the handler started from, and the
  event loop adds only the report of the uncaught error to the console.
\<close>

theorem malformed_payload_raises:
  assumes "JSON_parse B payload = None"
  shows "onmessage B payload st = Threw SyntaxError st \<and>
         (socket_state st i = Some Open \<longrightarrow>
            step B (WsMessage i payload) st =
              Some (st\<lparr>console := console st @ [LogUncaught SyntaxError]\<rparr>))"
  using assms by (simp add: onmessage_def step_def uncaught_def)

theorem malformed_payload_raises_witness:
  "JSON_parse sample_builtins (js ''not json'') = None \<and>
   onmessage sample_builtins (js ''not json'') open_page = Threw SyntaxError open_page \<and>
   step sample_builtins (WsMessage 0 (js ''not json'')) open_page =
     Some (open_page\<lparr>console := [LogUncaught SyntaxError]\<rparr>)"
proof -
  have p: "JSON_parse sample_builtins (js ''not json'') = None"
    by (simp add: sample_builtins_def history_body_def history_null_body_def js_def)
  have s: "socket_state open_page 0 = Some Open"
    by (simp add: socket_state_def open_page_def)
  have c: "console open_page = []"
    by (simp add: open_page_def sample_page_def)
  show ?thesis
    using malformed_payload_raises [OF p, of open_page 0] p s c by simp
qed

section \<open>Properties of the two requests\<close>

lemma showError_string:
  "showError B (JStr m) st =
     Returned (st\<lparr>previewSection_hidden := True, progressSection_hidden := True,
                  completeSection_hidden := True, errorSection_hidden := False,
                  errorMessage_text := m\<rparr>)"
  by (simp add: showError_def Let_def textContent_of_def hideAllSections_def)

text \<open>
  C4, as amended. When the URL field is empty or white space only, fetching the video
  information and starting the download do the same thing: no request is issued, and the
  validation message is shown by switching to the error view, that is, the preview, the
  progress and the complete section are hidden and the error section is shown with the
  message; every other part of the state is as before.
\<close>

theorem empty_url_rejected:
  assumes "trim (videoUrl_value st) = []"
  shows "handleFetchInfo B st =
           st\<lparr>previewSection_hidden := True, progressSection_hidden := True,
              completeSection_hidden := True, errorSection_hidden := False,
              errorMessage_text := enter_url_message\<rparr> \<and>
         handleDownload B st = handleFetchInfo B st \<and>
         requests (handleFetchInfo B st) = requests st \<and>
         requests (handleDownload B st) = requests st"
  using assms
  by (simp add: handleFetchInfo_def handleDownload_def showError_string state_of_def)

lemma trim_blank: "trim (js ''  '') = []"
  by code_simp

theorem empty_url_rejected_witness:
  "trim (videoUrl_value sample_page) = [] \<and>
   errorMessage_text (handleFetchInfo sample_builtins sample_page) = enter_url_message \<and>
   \<not> errorSection_hidden (handleDownload sample_builtins sample_page) \<and>
   requests (handleFetchInfo sample_builtins sample_page) = [] \<and>
   requests (handleDownload sample_builtins sample_page) = []"
proof -
  have t: "trim (videoUrl_value sample_page) = []"
    by (simp add: sample_page_def trim_blank)
  have r: "requests sample_page = []" by (simp add: sample_page_def)
  show ?thesis
    using empty_url_rejected [OF t, of sample_builtins] t r by simp
qed

text \<open>
  C4, as stated, asks that showing the message leaves all other state unchanged. On the
  page with a blank URL field and the preview section shown, both operations hide the
  preview section: \<^verbatim>\<open>showError\<close> starts with \<^verbatim>\<open>hideAllSections\<close>.
\<close>

theorem empty_url_hides_preview:
  "trim (videoUrl_value sample_page) = [] \<and>
   \<not> previewSection_hidden sample_page \<and>
   previewSection_hidden (handleFetchInfo sample_builtins sample_page) \<and>
   previewSection_hidden (handleDownload sample_builtins sample_page)"
  by (simp add: sample_page_def trim_blank handleFetchInfo_def handleDownload_def
      showError_string state_of_def)

lemma handleDownload_prepare_display:
  "progressBar_style_width (handleDownload_prepare B st) = js ''0%'' \<and>
   progressPercent_text (handleDownload_prepare B st) = js ''0%'' \<and>
   progressSpeed_text (handleDownload_prepare B st) = js ''0 MB/s'' \<and>
   progressEta_text (handleDownload_prepare B st) = js ''--'' @ nokori \<and>
   requests (handleDownload_prepare B st) = requests st"
proof -
  have g: "get_prop progress_reset (js ''progress'') = Inr (JNum (Fin 0))"
    "get_prop progress_reset (js ''speed'') = Inr (JNum (Fin 0))"
    "get_prop progress_reset (js ''eta'') = Inr (JNum (Fin 0))"
    by (simp_all add: progress_reset_def get_prop_def js_def)
  have z: "js_or (JNum (Fin 0)) (JNum (Fin 0)) = JNum (Fin 0)"
    by (simp add: js_or_def)
  have c: "ToNumber B (js_or (JNum (Fin 0)) (JNum (Fin 0))) = Inr (Fin 0)"
    "formatSpeed B (js_or (JNum (Fin 0)) (JNum (Fin 0))) = Inr (js ''0 MB/s'')"
    "formatEta B (js_or (JNum (Fin 0)) (JNum (Fin 0))) = Inr (js ''--'' @ nokori)"
    by (simp_all add: z ToNumber_number formatSpeed_falsy formatEta_falsy ToBoolean_zero)
  show ?thesis
    by (simp add: handleDownload_prepare_def Let_def updateProgress_returns [OF g c]
        round_zero_text state_of_def hideAllSections_def)
qed

text \<open>
  C8. When the trimmed URL is not empty, \<^verbatim>\<open>handleDownload\<close> issues its request from the
  state \<open>handleDownload_prepare\<close> leaves: in that state no request has been added yet
  and the display shows the zero values (\<^verbatim>\<open>0%\<close> for the bar and the percent text,
  \<^verbatim>\<open>0 MB/s\<close>, the unknown estimate); the request is the one added, and the display still
  shows the zero values when the function waits for the response.
\<close>

theorem download_resets_progress:
  assumes "trim (videoUrl_value st) \<noteq> []"
  shows "handleDownload B st =
           fetch (download_request (trim (videoUrl_value st)) (handleDownload_prepare B st))
             (handleDownload_prepare B st) \<and>
         requests (handleDownload_prepare B st) = requests st \<and>
         progressBar_style_width (handleDownload_prepare B st) = js ''0%'' \<and>
         progressPercent_text (handleDownload_prepare B st) = js ''0%'' \<and>
         progressSpeed_text (handleDownload_prepare B st) = js ''0 MB/s'' \<and>
         progressEta_text (handleDownload_prepare B st) = js ''--'' @ nokori \<and>
         requests (handleDownload B st) =
           requests st @
             [download_request (trim (videoUrl_value st)) (handleDownload_prepare B st)] \<and>
         progressBar_style_width (handleDownload B st) = js ''0%'' \<and>
         progressPercent_text (handleDownload B st) = js ''0%'' \<and>
         progressSpeed_text (handleDownload B st) = js ''0 MB/s'' \<and>
         progressEta_text (handleDownload B st) = js ''--'' @ nokori"
  using assms handleDownload_prepare_display [of B st]
  by (simp add: handleDownload_def Let_def fetch_def)

lemma trim_typed: "trim (videoUrl_value typed_page) = js ''https://youtu.be/x''"
  unfolding typed_page_def by (simp, code_simp)

lemma typed_request:
  "download_request (js ''https://youtu.be/x'')
     (handleDownload_prepare sample_builtins typed_page) =
     PostJson (js ''/api/download'')
       (JObj [(js ''url'', JStr (js ''https://youtu.be/x'')),
              (js ''quality'', JStr (js ''720p'')),
              (js ''audio_only'', JBool False), (js ''audio_quality'', JStr (js ''192''))])"
proof -
  have "formatTypeRadios (handleDownload_prepare sample_builtins typed_page) =
          [(True, js ''video''), (False, js ''audio'')] \<and>
        videoQuality_value (handleDownload_prepare sample_builtins typed_page) = js ''720p'' \<and>
        audioQuality_value (handleDownload_prepare sample_builtins typed_page) = js ''192''"
    using updateProgress_cases [of sample_builtins progress_reset]
    by (auto simp: handleDownload_prepare_def typed_page_def sample_page_def state_of_def
        hideAllSections_def Let_def)
  then show ?thesis
    by (simp add: download_request_def Let_def js_def)
qed

theorem download_resets_progress_witness:
  "trim (videoUrl_value typed_page) \<noteq> [] \<and>
   requests (handleDownload sample_builtins typed_page) =
     [PostJson (js ''/api/download'')
       (JObj [(js ''url'', JStr (js ''https://youtu.be/x'')),
              (js ''quality'', JStr (js ''720p'')),
              (js ''audio_only'', JBool False), (js ''audio_quality'', JStr (js ''192''))])] \<and>
   progressBar_style_width (handleDownload sample_builtins typed_page) = js ''0%'' \<and>
   progressSpeed_text (handleDownload sample_builtins typed_page) = js ''0 MB/s'' \<and>
   progressEta_text (handleDownload sample_builtins typed_page) = js ''--'' @ nokori"
proof -
  have t: "trim (videoUrl_value typed_page) \<noteq> []"
    by (simp add: trim_typed js_def)
  have r: "requests typed_page = []" by (simp add: typed_page_def sample_page_def)
  show ?thesis
    using download_resets_progress [OF t, of sample_builtins] t r
    by (simp add: trim_typed typed_request fetch_def)
qed

section \<open>Properties of the history list\<close>

lemma appendItems_Returned:
  "appendItems B items st = Returned s \<Longrightarrow>
     \<exists>nodes. list_all2 (built_from B) items nodes \<and>
             s = st\<lparr>historyList := historyList st @ nodes\<rparr>"
proof (induction items arbitrary: st)
  case Nil
  then show ?case by simp
next
  case (Cons item items)
  then obtain n where n: "createHistoryItem B item = Inr n"
    by (cases "createHistoryItem B item") auto
  with Cons.prems
  have "appendItems B items (st\<lparr>historyList := historyList st @ [n]\<rparr>) = Returned s"
    by simp
  from Cons.IH [OF this] obtain nodes where
    "list_all2 (built_from B) items nodes"
    "s = st\<lparr>historyList := historyList st @ n # nodes\<rparr>"
    by auto
  with n have "list_all2 (built_from B) (item # items) (n # nodes) \<and>
      s = st\<lparr>historyList := historyList st @ n # nodes\<rparr>"
    by (simp add: built_from_def)
  then show ?case by blast
qed

lemma appendItems_built:
  "list_all2 (built_from B) items nodes \<Longrightarrow>
     appendItems B items st = Returned (st\<lparr>historyList := historyList st @ nodes\<rparr>)"
proof (induction items nodes arbitrary: st rule: list_all2_induct)
  case Nil
  then show ?case by simp
next
  case (Cons item n items nodes)
  then show ?case by (simp add: built_from_def)
qed

lemma appendItems_Threw:
  "appendItems B items st = Threw e s \<Longrightarrow> \<exists>s'. appendItems B items st' = Threw e s'"
proof (induction items arbitrary: st st')
  case Nil
  then show ?case by simp
next
  case (Cons item items)
  then show ?case by (cases "createHistoryItem B item") auto
qed

lemma appendItems_unbuilt:
  "item \<in> set items \<Longrightarrow> createHistoryItem B item = Inl e \<Longrightarrow>
     \<exists>e' s. appendItems B items st = Threw e' s"
proof (induction items arbitrary: st)
  case Nil
  then show ?case by simp
next
  case (Cons x items)
  show ?case
  proof (cases "createHistoryItem B x")
    case (Inl e')
    then show ?thesis by simp
  next
    case (Inr n)
    with Cons.prems have "item \<in> set items" by auto
    from Cons.IH [OF this Cons.prems(2)] show ?thesis using Inr by simp
  qed
qed

lemma built_from_item: "built_from B item node \<Longrightarrow> node \<noteq> HistoryEmpty"
  by (auto simp: built_from_def createHistoryItem_def split: sum.splits)

text \<open>
  An object whose thumbnail, title and completion time are absent or strings builds an
  element: the thumbnail or its placeholder, the title (the text \<^verbatim>\<open>undefined\<close> when
  absent) and the date.
\<close>

lemma ToString_undefined_or_string:
  "v = JUndefined \<or> (\<exists>s. v = JStr s) \<Longrightarrow>
     ToString B v = Inr (case v of JStr s \<Rightarrow> s | _ \<Rightarrow> js ''undefined'')"
  by auto

lemma entry_built:
  assumes "get_prop (JObj kvs) (js ''thumbnail'') = Inr th"
    and "get_prop (JObj kvs) (js ''title'') = Inr t"
    and "get_prop (JObj kvs) (js ''completed_at'') = Inr c"
    and "th = JUndefined \<or> (\<exists>s. th = JStr s)"
    and "t = JUndefined \<or> (\<exists>s. t = JStr s)"
    and "c = JUndefined \<or> (\<exists>s. c = JStr s)"
  shows "createHistoryItem B (JObj kvs) =
     Inr (HistoryItem
            (case th of JStr s \<Rightarrow> if s = [] then placeholder_thumbnail else s
                      | _ \<Rightarrow> placeholder_thumbnail)
            (case t of JStr s \<Rightarrow> s | _ \<Rightarrow> js ''undefined'')
            (Date_toLocaleString B c) (JObj kvs))"
  using assms
  by (auto simp: createHistoryItem_def ToPrimitive_def js_or_def ToBoolean_def)

lemma displayHistory_indep:
  "historyList (case displayHistory B data st of
                  Returned s \<Rightarrow> s | Threw e s \<Rightarrow> loadHistory_catch e s) =
   historyList (case displayHistory B data st' of
                  Returned s \<Rightarrow> s | Threw e s \<Rightarrow> loadHistory_catch e s)"
proof (cases data)
  case (JArr items)
  let ?s = "st\<lparr>historyList := []\<rparr>" and ?s' = "st'\<lparr>historyList := []\<rparr>"
  show ?thesis
  proof (cases "appendItems B items ?s")
    case (Returned s)
    from appendItems_Returned [OF this] obtain nodes where
      n: "list_all2 (built_from B) items nodes"
      and s: "s = ?s\<lparr>historyList := historyList ?s @ nodes\<rparr>"
      by blast
    show ?thesis
      using JArr Returned s appendItems_built [OF n, of ?s']
      by (simp add: displayHistory_def)
  next
    case (Threw e s)
    from appendItems_Threw [OF this, of ?s'] obtain s' where
      "appendItems B items ?s' = Threw e s'"
      by blast
    then show ?thesis
      using JArr Threw
      by (simp add: displayHistory_def loadHistory_catch_def displayEmptyHistory_def)
  qed
qed (simp_all add: displayHistory_def loadHistory_catch_def displayEmptyHistory_def)

lemma loadHistory_indep:
  "historyList (loadHistory_resume B r st) = historyList (loadHistory_resume B r st')"
  unfolding loadHistory_resume_def loadHistory_try_def
  using displayHistory_indep [of B _ st st']
  by (auto simp: loadHistory_catch_def displayEmptyHistory_def
      split: http_response.splits option.splits sum.splits)

lemma loadHistory_displays:
  assumes "JSON_parse B body = Some result"
    and "get_prop result (js ''success'') = Inr success" and "ToBoolean success"
    and "get_prop result (js ''data'') = Inr (JArr items)" and "items \<noteq> []"
  shows "loadHistory_try B (Response ok body) st = displayHistory B (JArr items) st"
proof -
  have len: "get_prop (JArr items) (js ''length'') = Inr (JNum (Fin (of_nat (length items))))"
    by (simp add: get_prop_def)
  have pos: "num_gt_zero (Fin (of_nat (length items)))"
    using assms(5) by (simp add: num_gt_zero_def)
  show ?thesis
    using assms(1-4) len pos by (simp add: loadHistory_try_def ToNumber_number)
qed

lemma loadHistory_entries:
  assumes "JSON_parse B body = Some result"
    and "get_prop result (js ''success'') = Inr success" and "ToBoolean success"
    and "get_prop result (js ''data'') = Inr (JArr items)" and "items \<noteq> []"
    and "list_all2 (built_from B) items nodes"
  shows "historyList (loadHistory_resume B (Response ok body) st) = nodes"
proof -
  have "loadHistory_try B (Response ok body) st = displayHistory B (JArr items) st"
    using assms(1-5) by (rule loadHistory_displays)
  also have "\<dots> = Returned (st\<lparr>historyList := nodes\<rparr>)"
    using appendItems_built [OF assms(6), of "st\<lparr>historyList := []\<rparr>"]
    by (simp add: displayHistory_def)
  finally show ?thesis
    by (simp add: loadHistory_resume_def)
qed

lemma loadHistory_unbuilt:
  assumes "JSON_parse B body = Some result"
    and "get_prop result (js ''success'') = Inr success" and "ToBoolean success"
    and "get_prop result (js ''data'') = Inr (JArr items)"
    and "item \<in> set items" and "createHistoryItem B item = Inl e"
  shows "historyList (loadHistory_resume B (Response ok body) st) = [HistoryEmpty]"
proof -
  from assms(5) have ne: "items \<noteq> []" by auto
  have "loadHistory_try B (Response ok body) st = displayHistory B (JArr items) st"
    using assms(1-4) ne by (rule loadHistory_displays)
  moreover obtain e' s where "appendItems B items (st\<lparr>historyList := []\<rparr>) = Threw e' s"
    using appendItems_unbuilt [OF assms(5,6)] by blast
  ultimately show ?thesis
    by (simp add: loadHistory_resume_def displayHistory_def loadHistory_catch_def
        displayEmptyHistory_def)
qed

text \<open>
  C9, as amended. What the history list shows after a response depends on the response
  alone. A request that fails, a body that is not JSON, a result whose \<^verbatim>\<open>success\<close> is
  falsy and an empty list show the placeholder alone. A result whose \<^verbatim>\<open>success\<close> is
  truthy, whatever the status of the response, with a non-empty list shows one element
  per item, in order and without the placeholder, when an element can be built from every
  item; when some item cannot be built from (it is \<^verbatim>\<open>null\<close> or \<^verbatim>\<open>undefined\<close>, or one of
  its texts cannot be converted) it shows the placeholder alone. The list shown before is
  replaced whatever it was, so handling the same response again shows the same list:
  nothing is duplicated.
\<close>

theorem history_rendering:
  "historyList (loadHistory_resume B NetworkError st) = [HistoryEmpty] \<and>
   (JSON_parse B body = None \<longrightarrow>
      historyList (loadHistory_resume B (Response ok body) st) = [HistoryEmpty]) \<and>
   (JSON_parse B body = Some result \<and> get_prop result (js ''success'') = Inr success \<and>
    \<not> ToBoolean success \<longrightarrow>
      historyList (loadHistory_resume B (Response ok body) st) = [HistoryEmpty]) \<and>
   (JSON_parse B body = Some result \<and> get_prop result (js ''success'') = Inr success \<and>
    ToBoolean success \<and> get_prop result (js ''data'') = Inr (JArr []) \<longrightarrow>
      historyList (loadHistory_resume B (Response ok body) st) = [HistoryEmpty]) \<and>
   (JSON_parse B body = Some result \<and> get_prop result (js ''success'') = Inr success \<and>
    ToBoolean success \<and> get_prop result (js ''data'') = Inr (JArr items) \<and> items \<noteq> [] \<and>
    list_all2 (built_from B) items nodes \<longrightarrow>
      historyList (loadHistory_resume B (Response ok body) st) = nodes \<and>
      length (historyList (loadHistory_resume B (Response ok body) st)) = length items \<and>
      HistoryEmpty \<notin> set (historyList (loadHistory_resume B (Response ok body) st))) \<and>
   (JSON_parse B body = Some result \<and> get_prop result (js ''success'') = Inr success \<and>
    ToBoolean success \<and> get_prop result (js ''data'') = Inr (JArr items) \<and>
    item \<in> set items \<and> createHistoryItem B item = Inl e \<longrightarrow>
      historyList (loadHistory_resume B (Response ok body) st) = [HistoryEmpty]) \<and>
   createHistoryItem B JNull = Inl TypeError \<and>
   createHistoryItem B JUndefined = Inl TypeError \<and>
   historyList (loadHistory_resume B r (st\<lparr>historyList := old\<rparr>)) =
     historyList (loadHistory_resume B r st) \<and>
   historyList (loadHistory_resume B r (loadHistory_resume B r st)) =
     historyList (loadHistory_resume B r st)"
proof -
  have a: "historyList (loadHistory_resume B NetworkError st) = [HistoryEmpty]"
    by (simp add: loadHistory_resume_def loadHistory_try_def loadHistory_catch_def
        displayEmptyHistory_def)
  have b: "JSON_parse B body = None \<longrightarrow>
      historyList (loadHistory_resume B (Response ok body) st) = [HistoryEmpty]"
    by (simp add: loadHistory_resume_def loadHistory_try_def loadHistory_catch_def
        displayEmptyHistory_def)
  have c: "JSON_parse B body = Some result \<and> get_prop result (js ''success'') = Inr success \<and>
    \<not> ToBoolean success \<longrightarrow>
      historyList (loadHistory_resume B (Response ok body) st) = [HistoryEmpty]"
    by (simp add: loadHistory_resume_def loadHistory_try_def displayEmptyHistory_def)
  have d: "JSON_parse B body = Some result \<and> get_prop result (js ''success'') = Inr success \<and>
    ToBoolean success \<and> get_prop result (js ''data'') = Inr (JArr []) \<longrightarrow>
      historyList (loadHistory_resume B (Response ok body) st) = [HistoryEmpty]"
    by (simp add: loadHistory_resume_def loadHistory_try_def displayEmptyHistory_def
        get_prop_def ToNumber_number num_gt_zero_def)
  have e: "JSON_parse B body = Some result \<and> get_prop result (js ''success'') = Inr success \<and>
    ToBoolean success \<and> get_prop result (js ''data'') = Inr (JArr items) \<and> items \<noteq> [] \<and>
    list_all2 (built_from B) items nodes \<longrightarrow>
      historyList (loadHistory_resume B (Response ok body) st) = nodes \<and>
      length (historyList (loadHistory_resume B (Response ok body) st)) = length items \<and>
      HistoryEmpty \<notin> set (historyList (loadHistory_resume B (Response ok body) st))"
  proof (intro impI, elim conjE)
    assume h: "JSON_parse B body = Some result" "get_prop result (js ''success'') = Inr success"
      "ToBoolean success" "get_prop result (js ''data'') = Inr (JArr items)" "items \<noteq> []"
      "list_all2 (built_from B) items nodes"
    let ?h = "historyList (loadHistory_resume B (Response ok body) st)"
    have l: "?h = nodes"
      using h by (rule loadHistory_entries)
    have "length nodes = length items"
      using h(6) by (simp add: list_all2_lengthD)
    moreover have "HistoryEmpty \<notin> set nodes"
    proof
      assume "HistoryEmpty \<in> set nodes"
      then obtain k where "k < length nodes" "nodes ! k = HistoryEmpty"
        by (auto simp: in_set_conv_nth)
      with h(6) have "built_from B (items ! k) HistoryEmpty"
        by (metis list_all2_nthD2)
      then show False using built_from_item by blast
    qed
    ultimately show "?h = nodes \<and> length ?h = length items \<and> HistoryEmpty \<notin> set ?h"
      using l by simp
  qed
  have f: "JSON_parse B body = Some result \<and> get_prop result (js ''success'') = Inr success \<and>
    ToBoolean success \<and> get_prop result (js ''data'') = Inr (JArr items) \<and>
    item \<in> set items \<and> createHistoryItem B item = Inl e \<longrightarrow>
      historyList (loadHistory_resume B (Response ok body) st) = [HistoryEmpty]"
    using loadHistory_unbuilt [of B body result success items item e ok st] by blast
  have g: "createHistoryItem B JNull = Inl TypeError"
    "createHistoryItem B JUndefined = Inl TypeError"
    by (simp_all add: createHistoryItem_def get_prop_def)
  show ?thesis
    using a b c d e f g loadHistory_indep [of B r "st\<lparr>historyList := old\<rparr>" st]
      loadHistory_indep [of B r "loadHistory_resume B r st" st]
    by blast
qed

lemma sample_history_parse: "JSON_parse sample_builtins history_body = Some history_result"
  by (simp add: sample_builtins_def history_body_def js_def)

lemma sample_history_null_parse:
  "JSON_parse sample_builtins history_null_body = Some history_null_result"
  by (simp add: sample_builtins_def history_body_def history_null_body_def js_def)

lemma sample_entry_built:
  "createHistoryItem sample_builtins (JObj [(js ''id'', JStr i), (js ''title'', JStr t)]) =
     Inr (HistoryItem placeholder_thumbnail t (js ''Invalid Date'')
            (JObj [(js ''id'', JStr i), (js ''title'', JStr t)]))"
proof -
  let ?item = "JObj [(js ''id'', JStr i), (js ''title'', JStr t)]"
  have g: "get_prop ?item (js ''thumbnail'') = Inr JUndefined"
    "get_prop ?item (js ''title'') = Inr (JStr t)"
    "get_prop ?item (js ''completed_at'') = Inr JUndefined"
    by (simp_all add: get_prop_def js_def)
  show ?thesis
    using entry_built [OF g, of sample_builtins] by (simp add: sample_builtins_def)
qed

lemma sample_history_nodes: "list_all2 (built_from sample_builtins) history_items history_nodes"
  by (simp add: history_items_def history_nodes_def built_from_def sample_entry_built)

theorem history_rendering_witness:
  "JSON_parse sample_builtins history_body = Some history_result \<and>
   get_prop history_result (js ''success'') = Inr (JBool True) \<and> ToBoolean (JBool True) \<and>
   get_prop history_result (js ''data'') = Inr (JArr history_items) \<and> history_items \<noteq> [] \<and>
   list_all2 (built_from sample_builtins) history_items history_nodes \<and>
   JNull \<in> set history_null_items \<and>
   JSON_parse sample_builtins (js ''oops'') = None \<and>
   historyList (loadHistory_resume sample_builtins (Response False history_body)
     (loadHistory_resume sample_builtins (Response True history_body) sample_page)) =
     history_nodes \<and>
   historyList (loadHistory_resume sample_builtins (Response False (js ''oops''))
     (loadHistory_resume sample_builtins (Response True history_body) sample_page)) =
     [HistoryEmpty] \<and>
   historyList (loadHistory_resume sample_builtins (Response True history_null_body)
     (loadHistory_resume sample_builtins (Response True history_body) sample_page)) =
     [HistoryEmpty]"
proof -
  let ?B = sample_builtins
  have g: "get_prop history_result (js ''success'') = Inr (JBool True)"
    "get_prop history_result (js ''data'') = Inr (JArr history_items)"
    by (simp_all add: history_result_def get_prop_def js_def)
  have gn: "get_prop history_null_result (js ''success'') = Inr (JBool True)"
    "get_prop history_null_result (js ''data'') = Inr (JArr history_null_items)"
    by (simp_all add: history_null_result_def get_prop_def js_def)
  have t: "ToBoolean (JBool True)" by (simp add: ToBoolean_def)
  have n: "history_items \<noteq> []" by (simp add: history_items_def)
  have m: "JNull \<in> set history_null_items" by (simp add: history_null_items_def)
  have p: "JSON_parse ?B (js ''oops'') = None"
    by (simp add: sample_builtins_def history_body_def history_null_body_def js_def)
  let ?st = "loadHistory_resume ?B (Response True history_body) sample_page"
  have 1: "historyList (loadHistory_resume ?B (Response False history_body) ?st) = history_nodes"
    using history_rendering [of ?B ?st history_body False history_result "JBool True"
        history_items history_nodes] sample_history_parse g t n sample_history_nodes
    by simp
  have 2: "historyList (loadHistory_resume ?B (Response False (js ''oops'')) ?st) = [HistoryEmpty]"
    using history_rendering [of ?B ?st "js ''oops''" False] p by simp
  have 3: "historyList (loadHistory_resume ?B (Response True history_null_body) ?st) =
      [HistoryEmpty]"
    using history_rendering [of ?B ?st history_null_body True history_null_result "JBool True"
        history_null_items _ JNull TypeError] sample_history_null_parse gn t m
    by simp
  show ?thesis
    using sample_history_parse g t n sample_history_nodes m p 1 2 3 by simp
qed

text \<open>
  C9, as stated, asks for one entry per item for every non-empty list. A successful
  result whose list holds an entry and \<^verbatim>\<open>null\<close> shows the placeholder alone.
\<close>

theorem history_null_item_placeholder:
  "JSON_parse sample_builtins history_null_body = Some history_null_result \<and>
   get_prop history_null_result (js ''success'') = Inr (JBool True) \<and>
   get_prop history_null_result (js ''data'') = Inr (JArr history_null_items) \<and>
   length history_null_items = 2 \<and>
   historyList (loadHistory_resume sample_builtins (Response True history_null_body) sample_page) =
     [HistoryEmpty]"
proof -
  have g: "get_prop history_null_result (js ''success'') = Inr (JBool True)"
    "get_prop history_null_result (js ''data'') = Inr (JArr history_null_items)"
    by (simp_all add: history_null_result_def get_prop_def js_def)
  have l: "length history_null_items = 2" by (simp add: history_null_items_def)
  have "appendItems sample_builtins history_null_items (sample_page\<lparr>historyList := []\<rparr>) =
        Threw TypeError
          (sample_page\<lparr>historyList :=
             [HistoryItem placeholder_thumbnail (js ''A'') (js ''Invalid Date'')
                (JObj [(js ''id'', JStr (js ''a'')), (js ''title'', JStr (js ''A''))])]\<rparr>)"
    by (simp add: history_null_items_def sample_entry_built)
       (simp add: createHistoryItem_def get_prop_def)
  then have "historyList (loadHistory_resume sample_builtins (Response True history_null_body)
      sample_page) = [HistoryEmpty]"
    using sample_history_null_parse g
    by (simp add: loadHistory_resume_def loadHistory_try_def get_prop_def ToNumber_number
        num_gt_zero_def ToBoolean_def displayHistory_def loadHistory_catch_def
        displayEmptyHistory_def)
  then show ?thesis using sample_history_null_parse g l by simp
qed

section \<open>Properties of the channel\<close>

text \<open>No handler but the close handler and the timer touches the sockets or the timers.\<close>

lemma updateProgress_channel:
  "sockets (state_of (updateProgress B d st)) = sockets st \<and>
   timers (state_of (updateProgress B d st)) = timers st"
  using updateProgress_cases [of B d] by (auto simp: state_of_def)

lemma showError_channel:
  "sockets (state_of (showError B m st)) = sockets st \<and>
   timers (state_of (showError B m st)) = timers st"
  by (simp add: showError_def state_of_def Let_def hideAllSections_def split: sum.splits)

lemma handleDownloadComplete_channel:
  "sockets (state_of (handleDownloadComplete B r st)) = sockets st \<and>
   timers (state_of (handleDownloadComplete B r st)) = timers st"
  by (simp add: handleDownloadComplete_def state_of_def Let_def loadHistory_def fetch_def
      hideAllSections_def split: sum.splits)

lemma handleWebSocketMessage_channel:
  "sockets (state_of (handleWebSocketMessage B d st)) = sockets st \<and>
   timers (state_of (handleWebSocketMessage B d st)) = timers st"
  using updateProgress_channel [of B d st] handleDownloadComplete_channel [of B _ st]
    showError_channel [of B _ st]
  by (simp add: handleWebSocketMessage_def split: sum.splits) (simp add: state_of_def)

lemma uncaught_channel:
  "sockets (uncaught r) = sockets (state_of r) \<and> timers (uncaught r) = timers (state_of r)"
  by (cases r) (simp_all add: uncaught_def state_of_def)

lemma onmessage_channel:
  "sockets (uncaught (onmessage B payload st)) = sockets st \<and>
   timers (uncaught (onmessage B payload st)) = timers st"
  using handleWebSocketMessage_channel [of B _ st]
  by (simp add: uncaught_channel onmessage_def split: option.splits) (simp add: state_of_def)

lemma handleFetchInfo_channel:
  "sockets (handleFetchInfo B st) = sockets st \<and> timers (handleFetchInfo B st) = timers st"
  using showError_channel [of B "JStr enter_url_message" st]
  by (simp add: handleFetchInfo_def hideAllSections_def fetch_def Let_def)

lemma handleDownload_channel:
  "sockets (handleDownload B st) = sockets st \<and> timers (handleDownload B st) = timers st"
  using updateProgress_channel [of B progress_reset]
    showError_channel [of B "JStr enter_url_message" st]
  by (simp add: handleDownload_def handleDownload_prepare_def hideAllSections_def
      fetch_def Let_def)

lemma resetForm_channel:
  "sockets (resetForm st) = sockets st \<and> timers (resetForm st) = timers st"
  by (simp add: resetForm_def hideAllSections_def)

lemma appendItems_channel:
  "sockets (state_of (appendItems B items st)) = sockets st \<and>
   timers (state_of (appendItems B items st)) = timers st"
proof (induction items arbitrary: st)
  case Nil
  then show ?case by (simp add: state_of_def)
next
  case (Cons item items)
  then show ?case by (cases "createHistoryItem B item") (simp_all add: state_of_def)
qed

lemma displayHistory_channel:
  "sockets (state_of (displayHistory B data st)) = sockets st \<and>
   timers (state_of (displayHistory B data st)) = timers st"
  using appendItems_channel [of B _ "st\<lparr>historyList := []\<rparr>"]
  by (cases data) (simp_all add: displayHistory_def state_of_def)

lemma loadHistory_try_channel:
  "sockets (state_of (loadHistory_try B r st)) = sockets st \<and>
   timers (state_of (loadHistory_try B r st)) = timers st"
  using displayHistory_channel [of B _ st]
  by (simp add: loadHistory_try_def displayEmptyHistory_def
      split: http_response.splits option.splits sum.splits) (simp add: state_of_def)

lemma loadHistory_resume_channel:
  "sockets (loadHistory_resume B r st) = sockets st \<and>
   timers (loadHistory_resume B r st) = timers st"
  using loadHistory_try_channel [of B r st]
  by (cases "loadHistory_try B r st")
     (simp_all add: loadHistory_resume_def loadHistory_catch_def state_of_def
        displayEmptyHistory_def)

text \<open>Counting the live sockets when one of them changes its state.\<close>

lemma live_count_update:
  assumes "i < length xs" "live (xs ! i)" "\<not> live y"
  shows "Suc (length (filter live (xs[i := y]))) = length (filter live xs)"
proof -
  have xs: "xs = take i xs @ xs ! i # drop (Suc i) xs"
    using assms(1) by (simp add: id_take_nth_drop)
  have "xs[i := y] = take i xs @ y # drop (Suc i) xs"
    using assms(1) by (simp add: upd_conv_take_nth_drop)
  then have "Suc (length (filter live (xs[i := y]))) =
      Suc (length (filter live (take i xs)) + length (filter live (drop (Suc i) xs)))"
    using assms(3) by simp
  also have "\<dots> = length (filter live (take i xs @ xs ! i # drop (Suc i) xs))"
    using assms(2) by simp
  finally show ?thesis using xs by simp
qed

lemma live_count_same:
  assumes "i < length xs" "live (xs ! i)" "live y"
  shows "length (filter live (xs[i := y])) = length (filter live xs)"
proof -
  have xs: "xs = take i xs @ xs ! i # drop (Suc i) xs"
    using assms(1) by (simp add: id_take_nth_drop)
  have "xs[i := y] = take i xs @ y # drop (Suc i) xs"
    using assms(1) by (simp add: upd_conv_take_nth_drop)
  then have "length (filter live (xs[i := y])) =
      Suc (length (filter live (take i xs)) + length (filter live (drop (Suc i) xs)))"
    using assms(3) by simp
  also have "\<dots> = length (filter live (take i xs @ xs ! i # drop (Suc i) xs))"
    using assms(2) by simp
  finally show ?thesis using xs by simp
qed

lemma close_schedules:
  assumes "channel_inv st" "step B (WsClose i) st = Some st'"
  shows "timers st' = [reconnect_timer] \<and> length (filter live (sockets st')) = 0"
proof -
  from assms(2) have en: "socket_state st i = Some Connecting \<or> socket_state st i = Some Open"
    and st': "st' = onclose (set_readyState i Closed st)"
    by (auto simp: step_def split: if_splits)
  from en have i: "i < length (sockets st)" and l: "live (sockets st ! i)"
    by (auto simp: socket_state_def live_def split: if_splits)
  define a where "a = length (filter live (sockets st))"
  define b where
    "b = length (filter live ((sockets st)[i := (sockets st ! i)\<lparr>ws_readyState := Closed\<rparr>]))"
  have "Suc b = a"
    unfolding a_def b_def using i l by (intro live_count_update) (simp_all add: live_def)
  moreover have "a + length (timers st) = 1"
    using assms(1) by (simp add: channel_inv_def a_def)
  ultimately have "length (timers st) = 0 \<and> b = 0" by arith
  then have "timers st = []"
    and "length (filter live ((sockets st)[i := (sockets st ! i)\<lparr>ws_readyState := Closed\<rparr>])) = 0"
    by (simp_all add: b_def)
  then show ?thesis
    by (simp add: st' onclose_def setTimeout_def set_readyState_def reconnect_timer_def)
qed

lemma fire_reconnects:
  assumes "channel_inv st" "step B (TimerFire k) st = Some st'"
  shows "timers st' = [] \<and>
         sockets st' = sockets st @ [\<lparr>ws_url = wsUrl st, ws_readyState = Connecting\<rparr>] \<and>
         websocket st' = Some (length (sockets st)) \<and>
         length (filter live (sockets st)) = 0"
proof -
  from assms(2) have k: "k < length (timers st)"
    and st': "st' = run_callback (timer_callback (timers st ! k))
                     (st\<lparr>timers := remove_nth k (timers st)\<rparr>)"
    by (auto simp: step_def split: if_splits)
  define a where "a = length (filter live (sockets st))"
  have "a + length (timers st) = 1"
    using assms(1) by (simp add: channel_inv_def a_def)
  with k have "length (timers st) = 1 \<and> a = 0" by arith
  then have one: "length (timers st) = 1" and nolive: "length (filter live (sockets st)) = 0"
    by (simp_all add: a_def)
  from one k have "k = 0" by simp
  moreover from one obtain t where t: "timers st = [t]"
    by (cases "timers st") auto
  ultimately have "remove_nth k (timers st) = []" by (simp add: remove_nth_def)
  then show ?thesis
    using nolive
    by (cases "timer_callback (timers st ! k)")
       (simp add: st' run_callback_def initWebSocket_def wsUrl_def)
qed

lemma step_inv:
  assumes "channel_inv st" "step B ev st = Some st'"
  shows "channel_inv st'"
proof (cases ev)
  case (WsOpen i)
  with assms(2) have en: "socket_state st i = Some Connecting"
    and st': "st' = onopen (set_readyState i Open st)"
    by (auto simp: step_def split: if_splits)
  from en have "i < length (sockets st)" "live (sockets st ! i)"
    by (auto simp: socket_state_def live_def split: if_splits)
  then have "length (filter live ((sockets st)[i := (sockets st ! i)\<lparr>ws_readyState := Open\<rparr>]))
      = length (filter live (sockets st))"
    by (intro live_count_same) (simp_all add: live_def)
  then show ?thesis
    using assms(1) by (simp add: st' channel_inv_def onopen_def set_readyState_def)
next
  case (WsMessage i payload)
  with assms(2) have "st' = uncaught (onmessage B payload st)"
    by (auto simp: step_def split: if_splits)
  then show ?thesis using assms(1) by (simp add: channel_inv_def onmessage_channel)
next
  case (WsError i)
  with assms(2) have "st' = onerror st"
    by (auto simp: step_def split: if_splits)
  then show ?thesis using assms(1) by (simp add: channel_inv_def onerror_def)
next
  case (WsClose i)
  with assms close_schedules [of st B i st'] show ?thesis
    by (simp add: channel_inv_def)
next
  case (TimerFire k)
  with assms fire_reconnects [of st B k st'] show ?thesis
    by (simp add: channel_inv_def live_def)
next
  case ClickFetchInfo
  with assms show ?thesis by (auto simp: step_def channel_inv_def handleFetchInfo_channel)
next
  case ClickDownload
  with assms show ?thesis by (auto simp: step_def channel_inv_def handleDownload_channel)
next
  case ClickReset
  with assms show ?thesis by (auto simp: step_def channel_inv_def resetForm_channel)
next
  case (HistoryResponse r)
  with assms show ?thesis by (auto simp: step_def channel_inv_def loadHistory_resume_channel)
qed

lemma run_inv:
  "channel_inv st \<Longrightarrow> run B evs st = Some st' \<Longrightarrow> channel_inv st'"
proof (induction evs arbitrary: st)
  case Nil
  then show ?case by simp
next
  case (Cons ev evs)
  then show ?case by (cases "step B ev st") (auto dest: step_inv)
qed

lemma DOMContentLoaded_inv:
  assumes "sockets st0 = []" "timers st0 = []"
  shows "channel_inv (DOMContentLoaded st0)"
  using assms
  by (simp add: channel_inv_def DOMContentLoaded_def loadHistory_def fetch_def initWebSocket_def
      live_def)

lemma cycle_enabled:
  assumes "channel_inv st"
  shows "(\<exists>i. step B (WsClose i) st \<noteq> None) \<or> step B (TimerFire 0) st \<noteq> None"
proof (cases "timers st")
  case Nil
  with assms have "filter live (sockets st) \<noteq> []"
    by (auto simp: channel_inv_def)
  then obtain w where "w \<in> set (sockets st)" "live w"
    by (auto simp: filter_empty_conv)
  then obtain i where "i < length (sockets st)" "live (sockets st ! i)"
    by (auto simp: in_set_conv_nth)
  then have "step B (WsClose i) st \<noteq> None"
    by (cases "ws_readyState (sockets st ! i)") (simp_all add: step_def socket_state_def live_def)
  then show ?thesis by blast
next
  case (Cons t ts)
  then show ?thesis by (simp add: step_def)
qed

text \<open>
  The close handler keeps no record of a pending timer: run twice on one state it sets
  two. That a single timer is pending at a time comes from the life cycle of a socket,
  which closes once, and from the one place that creates sockets.
\<close>

lemma onclose_unguarded:
  "timers (onclose (onclose st)) = timers st @ [reconnect_timer, reconnect_timer]"
  by (simp add: onclose_def setTimeout_def reconnect_timer_def)

text \<open>
  C1. In every state the page reaches after it is loaded, whatever the events were: the
  live sockets and the pending timers are one in all, so at most one timer is pending; the
  close of a socket leaves exactly one pending timer, with the callback
  \<^verbatim>\<open>initWebSocket\<close> and the delay of 3000 ms, however many closes came before; when the
  timer fires, no timer is left and \<^verbatim>\<open>initWebSocket\<close> has created a fresh socket, which
  the global \<^verbatim>\<open>websocket\<close> names; and either a socket can still close or the timer can
  fire, so the cycle has no last attempt.
\<close>

theorem reconnect_policy:
  assumes "sockets st0 = []" and "timers st0 = []"
    and "run B evs (DOMContentLoaded st0) = Some st"
  shows "length (filter live (sockets st)) + length (timers st) = 1 \<and>
         length (timers st) \<le> 1 \<and>
         (\<forall>i st'. step B (WsClose i) st = Some st' \<longrightarrow> timers st' = [reconnect_timer]) \<and>
         (\<forall>k st'. step B (TimerFire k) st = Some st' \<longrightarrow>
            timers st' = [] \<and>
            sockets st' = sockets st @ [\<lparr>ws_url = wsUrl st, ws_readyState = Connecting\<rparr>] \<and>
            websocket st' = Some (length (sockets st))) \<and>
         ((\<exists>i. step B (WsClose i) st \<noteq> None) \<or> step B (TimerFire 0) st \<noteq> None)"
proof -
  have inv: "channel_inv st"
    using DOMContentLoaded_inv [OF assms(1,2)] assms(3) by (rule run_inv)
  have "length (filter live (sockets st)) + length (timers st) = 1"
    and "length (timers st) \<le> 1"
    using inv by (simp_all add: channel_inv_def)
  moreover have "\<forall>i st'. step B (WsClose i) st = Some st' \<longrightarrow> timers st' = [reconnect_timer]"
    using close_schedules [OF inv] by blast
  moreover have "\<forall>k st'. step B (TimerFire k) st = Some st' \<longrightarrow>
            timers st' = [] \<and>
            sockets st' = sockets st @ [\<lparr>ws_url = wsUrl st, ws_readyState = Connecting\<rparr>] \<and>
            websocket st' = Some (length (sockets st))"
    using fire_reconnects [OF inv] by blast
  ultimately show ?thesis
    using cycle_enabled [OF inv, of B] by blast
qed

lemma close_twice_run:
  "map_option (\<lambda>st. (map ws_readyState (sockets st), timers st, websocket st))
     (run sample_builtins close_twice (DOMContentLoaded sample_page)) =
   Some ([Closed, Closed], [reconnect_timer], Some 1)"
  by code_simp

theorem reconnect_policy_witness:
  "sockets sample_page = [] \<and> timers sample_page = [] \<and>
   (\<exists>st. run sample_builtins close_twice (DOMContentLoaded sample_page) = Some st \<and>
      timers st = [reconnect_timer] \<and> length (timers st) \<le> 1 \<and>
      (\<exists>st'. step sample_builtins (TimerFire 0) st = Some st' \<and> timers st' = [] \<and>
         map ws_readyState (sockets st') = [Closed, Closed, Connecting]))"
proof -
  have f: "sockets sample_page = []" "timers sample_page = []"
    by (simp_all add: sample_page_def)
  obtain st where st: "run sample_builtins close_twice (DOMContentLoaded sample_page) = Some st"
    and v: "map ws_readyState (sockets st) = [Closed, Closed]" "timers st = [reconnect_timer]"
    using close_twice_run by auto
  obtain st' where st': "step sample_builtins (TimerFire 0) st = Some st'"
    using v(2) by (simp add: step_def)
  show ?thesis
    using reconnect_policy [OF f st] f st v st' by auto
qed

end
